theory Spec2Isabelle
  imports Complex_Main "HOL-Library.Monad_Syntax" "HOL-Library.Word"
begin

section \<open>Vectors with checked indexing\<close>

text \<open>
  The arrays of the program are \<open>std::vector\<close>s indexed with \<open>operator[]\<close>, which does
  not check its index: an index outside \<open>0 .. size - 1\<close> is undefined behaviour. The
  model makes every access a partial operation, \<open>None\<close> standing for the undefined
  behaviour, so that no theorem below speaks about a run that left its arrays.
\<close>

definition in_range :: "'a list \<Rightarrow> int \<Rightarrow> bool" where
  "in_range xs i \<longleftrightarrow> 0 \<le> i \<and> i < int (length xs)"

definition vec_read :: "'a list \<Rightarrow> int \<Rightarrow> 'a option" where
  "vec_read xs i = (if in_range xs i then Some (xs ! nat i) else None)"

definition vec_write :: "'a list \<Rightarrow> int \<Rightarrow> 'a \<Rightarrow> 'a list option" where
  "vec_write xs i v = (if in_range xs i then Some (xs[nat i := v]) else None)"

definition vec_read2 :: "'a list list \<Rightarrow> int \<Rightarrow> int \<Rightarrow> 'a option" where
  "vec_read2 t l j = do { row \<leftarrow> vec_read t l; vec_read row j }"

section \<open>The dipole field update (src/dipole/update.cpp)\<close>

text \<open>
  Numbers. The program computes in \<open>double\<close>. The model computes in \<open>real\<close>: it is the
  exact arithmetic that the program's operations round, and it has no infinities and no
  NaN. A division by zero, which gives the program an infinity or a NaN (and which the
  C++ standard leaves undefined), is therefore outside the model: \<open>fdiv\<close> returns \<open>None\<close>
  there, and HOL's own convention \<open>x / 0 = 0\<close> is never used.
  The integer variables (\<open>int\<close> in the source) only count cells and index arrays
  below the array sizes, so they are modelled by \<open>int\<close> without wrap-around.
  \<open>M_PI\<close> is the macro of \<open>cmath\<close> for the number pi.
\<close>

definition fdiv :: "real \<Rightarrow> real \<Rightarrow> real option" where
  "fdiv a b = (if b = 0 then None else Some (a / b))"

definition M_PI :: real where
  "M_PI = pi"

text \<open>\<open>const double imuB = 1.0/9.274009994e-24\<close>\<close>

definition imuB :: real where
  "imuB = 1 / (9274009994 / 10 ^ 33)"

text \<open>The literal \<open>9.274009994e-01\<close> that lines 95 to 102 multiply by.\<close>

definition unit_scale :: real where
  "unit_scale = 9274009994 / 10 ^ 10"

text \<open>
  The global variables that \<open>update_field\<close> only reads: the flags, the cell counts, the
  cell tables of namespace \<open>cells\<close> and the six tensor tables of \<open>dipole::internal\<close>.
\<close>

record dipole_inputs =
  activated :: bool
  err_check :: bool
  my_rank :: int
  cells_num_local_cells :: int
  cells_num_cells :: int
  cell_id_array :: "int list"
  cells_num_atoms_in_cell :: "int list"
  cells_volume_array :: "real list"
  mag_array_x :: "real list"
  mag_array_y :: "real list"
  mag_array_z :: "real list"
  rij_tensor_xx :: "real list list"
  rij_tensor_xy :: "real list list"
  rij_tensor_xz :: "real list list"
  rij_tensor_yy :: "real list list"
  rij_tensor_yz :: "real list list"
  rij_tensor_zz :: "real list list"

text \<open>
  The global variables that \<open>update_field\<close> writes: the total dipolar field
  (\<open>cells_field_array\<close>), the demagnetizing pseudo-field (\<open>cells_mu0Hd_field_array\<close>),
  and the lines sent to \<open>std::cerr\<close> (the text and the rank printed after it).
\<close>

record dipole_fields =
  cells_field_array_x :: "real list"
  cells_field_array_y :: "real list"
  cells_field_array_z :: "real list"
  cells_mu0Hd_field_array_x :: "real list"
  cells_mu0Hd_field_array_y :: "real list"
  cells_mu0Hd_field_array_z :: "real list"
  cerr :: "(string \<times> int) list"

text \<open>
  The three tensor contractions of lines 84 to 90, for local cell \<open>lc\<close>, source cell \<open>j\<close>
  and the normalised moment \<open>(mx, my, mz)\<close> of \<open>j\<close>.
\<close>

definition contract_x :: "dipole_inputs \<Rightarrow> int \<Rightarrow> int \<Rightarrow> real \<Rightarrow> real \<Rightarrow> real \<Rightarrow> real option" where
  "contract_x inp lc j mx my mz = do {
     txx \<leftarrow> vec_read2 (rij_tensor_xx inp) lc j;
     txy \<leftarrow> vec_read2 (rij_tensor_xy inp) lc j;
     txz \<leftarrow> vec_read2 (rij_tensor_xz inp) lc j;
     Some (mx * txx + my * txy + mz * txz) }"

definition contract_y :: "dipole_inputs \<Rightarrow> int \<Rightarrow> int \<Rightarrow> real \<Rightarrow> real \<Rightarrow> real \<Rightarrow> real option" where
  "contract_y inp lc j mx my mz = do {
     txy \<leftarrow> vec_read2 (rij_tensor_xy inp) lc j;
     tyy \<leftarrow> vec_read2 (rij_tensor_yy inp) lc j;
     tyz \<leftarrow> vec_read2 (rij_tensor_yz inp) lc j;
     Some (mx * txy + my * tyy + mz * tyz) }"

definition contract_z :: "dipole_inputs \<Rightarrow> int \<Rightarrow> int \<Rightarrow> real \<Rightarrow> real \<Rightarrow> real \<Rightarrow> real option" where
  "contract_z inp lc j mx my mz = do {
     txz \<leftarrow> vec_read2 (rij_tensor_xz inp) lc j;
     tyz \<leftarrow> vec_read2 (rij_tensor_yz inp) lc j;
     tzz \<leftarrow> vec_read2 (rij_tensor_zz inp) lc j;
     Some (mx * txz + my * tyz + mz * tzz) }"

text \<open>\<open>a[i] += d\<close>\<close>

definition add_at :: "real list \<Rightarrow> int \<Rightarrow> real \<Rightarrow> real list option" where
  "add_at a i d = do { v \<leftarrow> vec_read a i; vec_write a i (v + d) }"

text \<open>\<open>a[i] = a[i] * c\<close>\<close>

definition scale_at :: "real list \<Rightarrow> int \<Rightarrow> real \<Rightarrow> real list option" where
  "scale_at a i c = do { v \<leftarrow> vec_read a i; vec_write a i (v * c) }"

text \<open>The body of the inner loop (lines 77 to 91) for one source cell \<open>j\<close>.\<close>

definition pair_step :: "dipole_inputs \<Rightarrow> int \<Rightarrow> int \<Rightarrow> int \<Rightarrow> dipole_fields \<Rightarrow> dipole_fields option" where
  "pair_step inp lc i j out = do {
     n \<leftarrow> vec_read (cells_num_atoms_in_cell inp) j;
     if n > 0 then do {
       mxj \<leftarrow> vec_read (mag_array_x inp) j;
       myj \<leftarrow> vec_read (mag_array_y inp) j;
       mzj \<leftarrow> vec_read (mag_array_z inp) j;
       let mx = mxj * imuB;
       let my = myj * imuB;
       let mz = mzj * imuB;
       dx \<leftarrow> contract_x inp lc j mx my mz;
       fx \<leftarrow> add_at (cells_field_array_x out) i dx;
       dy \<leftarrow> contract_y inp lc j mx my mz;
       fy \<leftarrow> add_at (cells_field_array_y out) i dy;
       dz \<leftarrow> contract_z inp lc j mx my mz;
       fz \<leftarrow> add_at (cells_field_array_z out) i dz;
       ex \<leftarrow> contract_x inp lc j mx my mz;
       hx \<leftarrow> add_at (cells_mu0Hd_field_array_x out) i ex;
       ey \<leftarrow> contract_y inp lc j mx my mz;
       hy \<leftarrow> add_at (cells_mu0Hd_field_array_y out) i ey;
       ez \<leftarrow> contract_z inp lc j mx my mz;
       hz \<leftarrow> add_at (cells_mu0Hd_field_array_z out) i ez;
       Some (out\<lparr>cells_field_array_x := fx, cells_field_array_y := fy,
                 cells_field_array_z := fz, cells_mu0Hd_field_array_x := hx,
                 cells_mu0Hd_field_array_y := hy, cells_mu0Hd_field_array_z := hz\<rparr>)
     } else Some out }"

text \<open>
  The inner loop \<open>for(int j=0;j<cells_num_cells;j++)\<close>, run over the list of the values
  that \<open>j\<close> takes, \<open>[0 .. cells_num_cells - 1]\<close> (the loop writes neither \<open>j\<close> nor its bound).
\<close>

fun pair_loop :: "dipole_inputs \<Rightarrow> int \<Rightarrow> int \<Rightarrow> int list \<Rightarrow> dipole_fields \<Rightarrow> dipole_fields option" where
  "pair_loop inp lc i [] out = Some out"
| "pair_loop inp lc i (j # js) out = do { out' \<leftarrow> pair_step inp lc i j out; pair_loop inp lc i js out' }"

text \<open>
  Lines 58 to 73: the self-demagnetisation factor of cell \<open>i\<close>, its normalised moment,
  and the first value of the six field entries of \<open>i\<close>.
\<close>

definition self_term :: "dipole_inputs \<Rightarrow> int \<Rightarrow> dipole_fields \<Rightarrow> dipole_fields option" where
  "self_term inp i out = do {
     vol \<leftarrow> vec_read (cells_volume_array inp) i;
     eightPI_three_cell_volume \<leftarrow> fdiv (8 * M_PI) (3 * vol);
     let self_demag = eightPI_three_cell_volume;
     mxi \<leftarrow> vec_read (mag_array_x inp) i;
     myi \<leftarrow> vec_read (mag_array_y inp) i;
     mzi \<leftarrow> vec_read (mag_array_z inp) i;
     let mx_i = mxi * imuB;
     let my_i = myi * imuB;
     let mz_i = mzi * imuB;
     fx \<leftarrow> vec_write (cells_field_array_x out) i (self_demag * mx_i);
     fy \<leftarrow> vec_write (cells_field_array_y out) i (self_demag * my_i);
     fz \<leftarrow> vec_write (cells_field_array_z out) i (self_demag * mz_i);
     hx \<leftarrow> vec_write (cells_mu0Hd_field_array_x out) i (- (1 / 2) * self_demag * mx_i);
     hy \<leftarrow> vec_write (cells_mu0Hd_field_array_y out) i (- (1 / 2) * self_demag * my_i);
     hz \<leftarrow> vec_write (cells_mu0Hd_field_array_z out) i (- (1 / 2) * self_demag * mz_i);
     Some (out\<lparr>cells_field_array_x := fx, cells_field_array_y := fy,
               cells_field_array_z := fz, cells_mu0Hd_field_array_x := hx,
               cells_mu0Hd_field_array_y := hy, cells_mu0Hd_field_array_z := hz\<rparr>) }"

text \<open>Lines 95 to 102: the six field entries of cell \<open>i\<close> are multiplied by \<open>9.274009994e-01\<close>.\<close>

definition rescale :: "int \<Rightarrow> dipole_fields \<Rightarrow> dipole_fields option" where
  "rescale i out = do {
     fx \<leftarrow> scale_at (cells_field_array_x out) i unit_scale;
     fy \<leftarrow> scale_at (cells_field_array_y out) i unit_scale;
     fz \<leftarrow> scale_at (cells_field_array_z out) i unit_scale;
     hx \<leftarrow> scale_at (cells_mu0Hd_field_array_x out) i unit_scale;
     hy \<leftarrow> scale_at (cells_mu0Hd_field_array_y out) i unit_scale;
     hz \<leftarrow> scale_at (cells_mu0Hd_field_array_z out) i unit_scale;
     Some (out\<lparr>cells_field_array_x := fx, cells_field_array_y := fy,
               cells_field_array_z := fz, cells_mu0Hd_field_array_x := hx,
               cells_mu0Hd_field_array_y := hy, cells_mu0Hd_field_array_z := hz\<rparr>) }"

text \<open>The body of the outer loop (lines 53 to 103) for one local index \<open>lc\<close>.\<close>

definition cell_update :: "dipole_inputs \<Rightarrow> int \<Rightarrow> dipole_fields \<Rightarrow> dipole_fields option" where
  "cell_update inp lc out = do {
     i \<leftarrow> vec_read (cell_id_array inp) lc;
     n \<leftarrow> vec_read (cells_num_atoms_in_cell inp) i;
     if n > 0 then do {
       out0 \<leftarrow> self_term inp i out;
       out1 \<leftarrow> pair_loop inp lc i [0 .. cells_num_cells inp - 1] out0;
       rescale i out1
     } else Some out }"

text \<open>The outer loop \<open>for(int lc=0;lc<cells_num_local_cells;lc++)\<close>.\<close>

fun local_loop :: "dipole_inputs \<Rightarrow> int list \<Rightarrow> dipole_fields \<Rightarrow> dipole_fields option" where
  "local_loop inp [] out = Some out"
| "local_loop inp (lc # lcs) out = do { out' \<leftarrow> cell_update inp lc out; local_loop inp lcs out' }"

text \<open>\<open>dipole::internal::update_field\<close>\<close>

definition update_field :: "dipole_inputs \<Rightarrow> dipole_fields \<Rightarrow> dipole_fields option" where
  "update_field inp out =
     (if \<not> activated inp then Some out
      else let out0 = (if err_check inp
                       then out\<lparr>cerr := cerr out @ [(''dipole::update has been called '', my_rank inp)]\<rparr>
                       else out)
           in local_loop inp [0 .. cells_num_local_cells inp - 1] out0)"

section \<open>OpenCL initialisation (src/opencl/initialize.cpp)\<close>

text \<open>
  What the OpenCL runtime reports: every platform has a name and its devices, every
  device a name and a version. \<open>cl::Platform::get\<close> and \<open>getDevices\<close> return these lists.
\<close>

record cl_device =
  device_name :: string
  device_version :: string

record cl_platform =
  platform_name :: string
  platform_devices :: "cl_device list"

text \<open>The preprocessor symbols that select the code of \<open>initialize\<close>.\<close>

record build_config =
  OPENCL :: bool
  OPENCL_DP :: bool
  OPENCL_USE_NATIVE_FUNCTIONS :: bool
  OPENCL_DEBUG :: bool

text \<open>
  What \<open>initialize\<close> and the functions it calls read from outside the module: the
  platforms, \<open>gpu::num_threads\<close>, and for each of the four statistics of namespace
  \<open>stats\<close> the sizes of the \<open>mask\<close> and \<open>saturations\<close> vectors that \<open>get_mask\<close> fills.
\<close>

record vcl_env =
  platforms_available :: "cl_platform list"
  num_threads :: int
  system_magnetization_mask :: "nat \<times> nat"
  material_magnetization_mask :: "nat \<times> nat"
  height_magnetization_mask :: "nat \<times> nat"
  material_height_magnetization_mask :: "nat \<times> nat"

text \<open>
  What they write: the lines sent to \<open>std::cout\<close>, to \<open>zlog\<close> (after its time stamp)
  and to \<open>vcl::OCLLOG\<close>; the variables of namespace \<open>vopencl::internal\<close>; and the device
  buffers created, by name and in order. The contents and byte sizes of the buffers live
  in the OpenCL runtime and are not modelled.
\<close>

record vcl_state =
  cout :: "string list"
  zlog :: "string list"
  OCLLOG :: "string list"
  use_cpu :: bool
  default_device :: "cl_device option"
  vcl_context :: "cl_device list"
  queue :: "(cl_device \<times> bool) option"
  global :: int
  buffers :: "string list"
  system_mask_size :: nat
  material_mask_size :: nat
  height_mask_size :: nat
  material_height_mask_size :: nat

text \<open>
  Modelled from the spec: \<open>err::vexit\<close> is declared in errors.hpp, which is not among the
  sources; the specification says of the two paths that call it that they are fatal and
  terminate the process after logging a diagnostic, so a call of \<open>vexit\<close> ends the run.

  How a call of \<open>initialize\<close> ends: it returns its \<open>bool\<close>; or the process is ended by
  \<open>err::vexit()\<close>; or it indexes a vector out of range, which is undefined behaviour.
\<close>

datatype outcome = Returned bool vcl_state | Exited vcl_state | Undefined

text \<open>\<open>std::cout << message << std::endl; zlog << zTs() << message << std::endl;\<close>\<close>

definition report :: "string \<Rightarrow> vcl_state \<Rightarrow> vcl_state" where
  "report message st = st\<lparr>cout := cout st @ [message], zlog := zlog st @ [message]\<rparr>"

text \<open>Lines 54 to 63: the first message.\<close>

definition enabled_message :: "build_config \<Rightarrow> string" where
  "enabled_message cfg =
     ''OpenCL has been enabled in '' @
     (if OPENCL_DP cfg then ''double precision mode.'' else ''single precision mode.'') @
     (if OPENCL_USE_NATIVE_FUNCTIONS cfg then '' Native functions will be used.'' else [])"

text \<open>Lines 93 to 100: the debug lines for one platform.\<close>

definition found_lines :: "cl_platform \<Rightarrow> string list" where
  "found_lines p =
     (''Found platform '' @ platform_name p) #
     concat (map (\<lambda>d. [''Found device '' @ device_name d, ''with version '' @ device_version d])
                 (platform_devices p))"

text \<open>
  The loop of lines 86 to 101 over the platforms: it fills \<open>devices\<close> (entry \<open>i\<close> in
  step \<open>i\<close>, modelled by appending to the entries filled so far) and counts the devices
  in \<open>ndevices\<close>, an \<open>unsigned\<close> (32 bits, so the sum wraps).
\<close>

fun find_devices :: "build_config \<Rightarrow> cl_platform list \<Rightarrow> cl_device list list \<times> 32 word \<times> string list
                       \<Rightarrow> cl_device list list \<times> 32 word \<times> string list" where
  "find_devices cfg [] acc = acc"
| "find_devices cfg (p # ps) (devices, ndevices, oclog) =
     (let tmp_devices = platform_devices p
      in find_devices cfg ps
           (devices @ [tmp_devices], ndevices + of_nat (length tmp_devices),
            if OPENCL_DEBUG cfg then oclog @ found_lines p else oclog))"

text \<open>The functions of namespace \<open>internal\<close> (lines 153 to 384): each creates its buffers and returns \<open>true\<close>.\<close>

definition create :: "string list \<Rightarrow> vcl_state \<Rightarrow> vcl_state" where
  "create names st = st\<lparr>buffers := buffers st @ names\<rparr>"

definition initialize_atoms :: "vcl_state \<Rightarrow> bool \<times> vcl_state" where
  "initialize_atoms st =
     (True, create [''atoms::spin_array'', ''atoms::coord_array'', ''atoms::type_array'',
                    ''atoms::cell_array'', ''atoms::spin_norm_array''] st)"

definition initialize_fields :: "vcl_state \<Rightarrow> bool \<times> vcl_state" where
  "initialize_fields st =
     (True, create [''total_spin_field_array'', ''total_external_field_array'', ''dipolar_field_array''] st)"

definition initialize_cells :: "vcl_state \<Rightarrow> bool \<times> vcl_state" where
  "initialize_cells st =
     (True, create [''cells::coord_array'', ''cells::mag_array'', ''cells::field_array'',
                    ''cells::volume_array'', ''cells::num_atoms''] st)"

definition initialize_materials :: "vcl_state \<Rightarrow> bool \<times> vcl_state" where
  "initialize_materials st = (True, create [''mp::materials''] st)"

definition initialize_topology :: "vcl_state \<Rightarrow> bool \<times> vcl_state" where
  "initialize_topology st = (True, create [''atoms::limits'', ''atoms::neighbours''] st)"

text \<open>
  One block of \<open>initialize_stats\<close>: the mask buffer is created when the mask is not empty,
  the two magnetization buffers when \<open>saturations\<close> is not empty (the byte sizes tested
  are the element counts times a positive constant).
\<close>

definition stat_buffers :: "string \<Rightarrow> nat \<times> nat \<Rightarrow> string list" where
  "stat_buffers name sizes =
     (if fst sizes \<noteq> 0 then [''stats::'' @ name @ ''_mask''] else []) @
     (if snd sizes \<noteq> 0
      then [''stats::'' @ name @ ''_magnetization'', ''stats::'' @ name @ ''_mean_magnetization'']
      else [])"

definition initialize_stats :: "vcl_env \<Rightarrow> vcl_state \<Rightarrow> bool \<times> vcl_state" where
  "initialize_stats env st =
     (let st1 = create (stat_buffers ''system'' (system_magnetization_mask env))
                  (st\<lparr>system_mask_size := snd (system_magnetization_mask env)\<rparr>);
          st2 = create (stat_buffers ''material'' (material_magnetization_mask env))
                  (st1\<lparr>material_mask_size := snd (material_magnetization_mask env)\<rparr>);
          st3 = create (stat_buffers ''height'' (height_magnetization_mask env))
                  (st2\<lparr>height_mask_size := snd (height_magnetization_mask env)\<rparr>);
          st4 = create (stat_buffers ''material_height'' (material_height_magnetization_mask env))
                  (st3\<lparr>material_height_mask_size := snd (material_height_magnetization_mask env)\<rparr>)
      in (True, st4))"

definition initialize_rng :: "vcl_state \<Rightarrow> bool \<times> vcl_state" where
  "initialize_rng st = (True, create [''rng::urands'', ''rng::grands''] st)"

text \<open>\<open>success &= f();\<close> The call is made whatever \<open>success\<close> is.\<close>

definition and_then :: "bool \<times> vcl_state \<Rightarrow> (vcl_state \<Rightarrow> bool \<times> vcl_state) \<Rightarrow> bool \<times> vcl_state" where
  "and_then r f = (let (ok, st') = f (snd r) in (fst r \<and> ok, st'))"

text \<open>
  Lines 132 to 141. \<open>initialize_kernels\<close> is defined in another file of the module; it is
  a parameter here, any function of the state.
\<close>

definition initialize_all :: "(vcl_state \<Rightarrow> bool \<times> vcl_state) \<Rightarrow> vcl_env \<Rightarrow> vcl_state \<Rightarrow> bool \<times> vcl_state" where
  "initialize_all initialize_kernels env st =
     and_then (and_then (and_then (and_then (and_then (and_then (and_then (and_then (True, st)
       initialize_atoms) initialize_fields) initialize_cells) initialize_materials)
       initialize_topology) (initialize_stats env)) initialize_rng) initialize_kernels"

text \<open>The two diagnostics of lines 78 and 105.\<close>

definition no_platforms_message :: string where
  "no_platforms_message = ''Error: OpenCL is enabled but no platforms are available.''"

definition no_devices_message :: string where
  "no_devices_message = ''Error: OpenCL is enabled but no suitable devices can be found.''"

text \<open>
  Lines 54 to 130: the messages, the \<open>use_cpu\<close> flag, the search for platforms and
  devices with its two fatal exits, and the choice of the default device, context,
  queue and work size. \<open>nplatforms\<close> is an \<open>unsigned\<close>, the size of \<open>platforms\<close> cut to
  32 bits; the loop visits the first \<open>nplatforms\<close> platforms. The queue is created with
  profiling enabled (the flag kept with its device). \<open>Returned True\<close> here means that
  line 132 is reached.
\<close>

definition select_device :: "build_config \<Rightarrow> vcl_env \<Rightarrow> bool \<Rightarrow> vcl_state \<Rightarrow> outcome" where
  "select_device cfg env cpu_stats st =
     (let st1 = report (enabled_message cfg) st;
          st2 = st1\<lparr>use_cpu := True\<rparr>;
          platforms = platforms_available env;
          nplatforms = (of_nat (length platforms) :: 32 word)
      in if nplatforms = 0
         then Exited (report no_platforms_message st2)
         else
           let (devices, ndevices, oclog) =
                 find_devices cfg (take (unat nplatforms) platforms) ([], 0, OCLLOG st2);
               st3 = st2\<lparr>OCLLOG := oclog\<rparr>
           in if ndevices = 0
              then Exited (report no_devices_message st3)
              else
                case vec_read platforms 0 of None \<Rightarrow> Undefined
                | Some default_platform \<Rightarrow>
                  (case vec_read2 devices 0 0 of None \<Rightarrow> Undefined
                   | Some dev \<Rightarrow>
                     let st4 = st3\<lparr>default_device := Some dev\<rparr>;
                         st5 = (if OPENCL_DEBUG cfg
                                then st4\<lparr>OCLLOG := OCLLOG st4 @
                                       [''Using default platform '' @ platform_name default_platform,
                                        ''Using default device '' @ device_name dev]\<rparr>
                                else st4);
                         st6 = st5\<lparr>vcl_context := [dev], queue := Some (dev, True)\<rparr>
                     in Returned True
                          (st6\<lparr>global := (if num_threads env > 0 then num_threads env else 4)\<rparr>)))"

text \<open>\<open>vopencl::initialize\<close>\<close>

definition initialize :: "build_config \<Rightarrow> (vcl_state \<Rightarrow> bool \<times> vcl_state) \<Rightarrow> vcl_env \<Rightarrow> bool \<Rightarrow> vcl_state \<Rightarrow> outcome" where
  "initialize cfg initialize_kernels env cpu_stats st =
     (if \<not> OPENCL cfg then Returned False st
      else case select_device cfg env cpu_stats st of
             Returned _ st' \<Rightarrow>
               (let (success, st'') = initialize_all initialize_kernels env st' in Returned success st'')
           | Exited st' \<Rightarrow> Exited st'
           | Undefined \<Rightarrow> Undefined)"

text \<open>
  The values of the local variables \<open>nplatforms\<close> and \<open>ndevices\<close> of \<open>initialize\<close> when
  the loop over the platforms has ended, and the platforms that the loop visits.
\<close>

definition nplatforms :: "vcl_env \<Rightarrow> 32 word" where
  "nplatforms env = of_nat (length (platforms_available env))"

definition visited_platforms :: "vcl_env \<Rightarrow> cl_platform list" where
  "visited_platforms env = take (unat (nplatforms env)) (platforms_available env)"

definition ndevices :: "vcl_env \<Rightarrow> 32 word" where
  "ndevices env = (\<Sum>p\<leftarrow>visited_platforms env. of_nat (length (platform_devices p)))"

text \<open>
  Example platforms: one without devices, one with a single device; a build with OpenCL
  enabled; a state with empty logs; and an \<open>initialize_kernels\<close> that succeeds and changes
  nothing.
\<close>

definition gpu0 :: cl_device where
  "gpu0 = \<lparr>device_name = ''gpu0'', device_version = ''OpenCL 1.2''\<rparr>"

definition empty_platform :: cl_platform where
  "empty_platform = \<lparr>platform_name = ''empty'', platform_devices = []\<rparr>"

definition gpu_platform :: cl_platform where
  "gpu_platform = \<lparr>platform_name = ''gpus'', platform_devices = [gpu0]\<rparr>"

definition ex_env :: "cl_platform list \<Rightarrow> vcl_env" where
  "ex_env ps = \<lparr>platforms_available = ps, num_threads = 0,
     system_magnetization_mask = (0, 0), material_magnetization_mask = (0, 0),
     height_magnetization_mask = (0, 0), material_height_magnetization_mask = (0, 0)\<rparr>"

definition ex_cfg :: build_config where
  "ex_cfg = \<lparr>OPENCL = True, OPENCL_DP = False, OPENCL_USE_NATIVE_FUNCTIONS = False, OPENCL_DEBUG = False\<rparr>"

definition ex_state :: vcl_state where
  "ex_state = \<lparr>cout = [], zlog = [], OCLLOG = [], use_cpu = False, default_device = None,
     vcl_context = [], queue = None, global = 0, buffers = [],
     system_mask_size = 0, material_mask_size = 0, height_mask_size = 0,
     material_height_mask_size = 0\<rparr>"

definition ex_kernels :: "vcl_state \<Rightarrow> bool \<times> vcl_state" where
  "ex_kernels st = (True, st)"

section \<open>The quantities of the specification of the dipole field\<close>

text \<open>
  The Bohr magneton \<open>9.274009994e-24\<close>, the self-demagnetisation factor \<open>8 pi / (3 V)\<close>,
  and the tables read at cell and local indices.
\<close>

definition muB :: real where "muB = 9274009994 / 10 ^ 33"

definition self_demag :: "real \<Rightarrow> real" where "self_demag V = 8 * pi / (3 * V)"

definition volume :: "dipole_inputs \<Rightarrow> int \<Rightarrow> real" where
  "volume inp i = cells_volume_array inp ! nat i"

definition occupied :: "dipole_inputs \<Rightarrow> int \<Rightarrow> bool" where
  "occupied inp j \<longleftrightarrow> 0 < cells_num_atoms_in_cell inp ! nat j"

definition cell_of :: "dipole_inputs \<Rightarrow> int \<Rightarrow> int" where
  "cell_of inp l = cell_id_array inp ! nat l"

text \<open>
  The global cells \<open>0 .. cells_num_cells - 1\<close>, the local indices
  \<open>0 .. cells_num_local_cells - 1\<close>, and the Local Cell Set: the cells at the local indices.
\<close>

definition all_cells :: "dipole_inputs \<Rightarrow> int list" where
  "all_cells inp = [0 .. cells_num_cells inp - 1]"

definition local_cells :: "dipole_inputs \<Rightarrow> int list" where
  "local_cells inp = [0 .. cells_num_local_cells inp - 1]"

definition local_cell_ids :: "dipole_inputs \<Rightarrow> int list" where
  "local_cell_ids inp = map (cell_of inp) (local_cells inp)"

text \<open>The normalised moment of cell \<open>j\<close>: its moment divided by the Bohr magneton.\<close>

definition moment_x :: "dipole_inputs \<Rightarrow> int \<Rightarrow> real" where
  "moment_x inp j = mag_array_x inp ! nat j / muB"

definition moment_y :: "dipole_inputs \<Rightarrow> int \<Rightarrow> real" where
  "moment_y inp j = mag_array_y inp ! nat j / muB"

definition moment_z :: "dipole_inputs \<Rightarrow> int \<Rightarrow> real" where
  "moment_z inp j = mag_array_z inp ! nat j / muB"

text \<open>
  The coefficient of a tensor table for the pair (local index \<open>l\<close>, cell \<open>j\<close>), and the
  contraction of the symmetric tensor of that pair with the normalised moment of \<open>j\<close>.
\<close>

definition coeff :: "real list list \<Rightarrow> int \<Rightarrow> int \<Rightarrow> real" where
  "coeff t l j = t ! nat l ! nat j"

definition pair_field_x :: "dipole_inputs \<Rightarrow> int \<Rightarrow> int \<Rightarrow> real" where
  "pair_field_x inp l j = moment_x inp j * coeff (rij_tensor_xx inp) l j + moment_y inp j * coeff (rij_tensor_xy inp) l j + moment_z inp j * coeff (rij_tensor_xz inp) l j"

definition pair_field_y :: "dipole_inputs \<Rightarrow> int \<Rightarrow> int \<Rightarrow> real" where
  "pair_field_y inp l j = moment_x inp j * coeff (rij_tensor_xy inp) l j + moment_y inp j * coeff (rij_tensor_yy inp) l j + moment_z inp j * coeff (rij_tensor_yz inp) l j"

definition pair_field_z :: "dipole_inputs \<Rightarrow> int \<Rightarrow> int \<Rightarrow> real" where
  "pair_field_z inp l j = moment_x inp j * coeff (rij_tensor_xz inp) l j + moment_y inp j * coeff (rij_tensor_yz inp) l j + moment_z inp j * coeff (rij_tensor_zz inp) l j"

text \<open>The sum of the contractions over the occupied cells among \<open>js\<close>.\<close>

definition pair_sum_x :: "dipole_inputs \<Rightarrow> int \<Rightarrow> int list \<Rightarrow> real" where
  "pair_sum_x inp l js = (\<Sum>j\<leftarrow>filter (occupied inp) js. pair_field_x inp l j)"

definition pair_sum_y :: "dipole_inputs \<Rightarrow> int \<Rightarrow> int list \<Rightarrow> real" where
  "pair_sum_y inp l js = (\<Sum>j\<leftarrow>filter (occupied inp) js. pair_field_y inp l j)"

definition pair_sum_z :: "dipole_inputs \<Rightarrow> int \<Rightarrow> int list \<Rightarrow> real" where
  "pair_sum_z inp l js = (\<Sum>j\<leftarrow>filter (occupied inp) js. pair_field_z inp l j)"

text \<open>
  The two fields of the cell owned at local index \<open>l\<close>, as the specification gives them:
  \<open>0.9274009994\<close> times the self term plus the pairwise sum, the self term of the
  pseudo-field having the factor \<open>-0.5\<close>.
\<close>

definition total_field_x :: "dipole_inputs \<Rightarrow> int \<Rightarrow> real" where
  "total_field_x inp l = (let i = cell_of inp l in
     (9274009994 / 10 ^ 10) * (self_demag (volume inp i) * moment_x inp i + pair_sum_x inp l (all_cells inp)))"

definition total_field_y :: "dipole_inputs \<Rightarrow> int \<Rightarrow> real" where
  "total_field_y inp l = (let i = cell_of inp l in
     (9274009994 / 10 ^ 10) * (self_demag (volume inp i) * moment_y inp i + pair_sum_y inp l (all_cells inp)))"

definition total_field_z :: "dipole_inputs \<Rightarrow> int \<Rightarrow> real" where
  "total_field_z inp l = (let i = cell_of inp l in
     (9274009994 / 10 ^ 10) * (self_demag (volume inp i) * moment_z inp i + pair_sum_z inp l (all_cells inp)))"

definition demag_field_x :: "dipole_inputs \<Rightarrow> int \<Rightarrow> real" where
  "demag_field_x inp l = (let i = cell_of inp l in
     (9274009994 / 10 ^ 10) * (- (1 / 2) * self_demag (volume inp i) * moment_x inp i + pair_sum_x inp l (all_cells inp)))"

definition demag_field_y :: "dipole_inputs \<Rightarrow> int \<Rightarrow> real" where
  "demag_field_y inp l = (let i = cell_of inp l in
     (9274009994 / 10 ^ 10) * (- (1 / 2) * self_demag (volume inp i) * moment_y inp i + pair_sum_y inp l (all_cells inp)))"

definition demag_field_z :: "dipole_inputs \<Rightarrow> int \<Rightarrow> real" where
  "demag_field_z inp l = (let i = cell_of inp l in
     (9274009994 / 10 ^ 10) * (- (1 / 2) * self_demag (volume inp i) * moment_z inp i + pair_sum_z inp l (all_cells inp)))"

definition cell_fields :: "dipole_inputs \<Rightarrow> int \<Rightarrow> real \<times> real \<times> real \<times> real \<times> real \<times> real" where
  "cell_fields inp l = (total_field_x inp l, total_field_y inp l, total_field_z inp l,
                        demag_field_x inp l, demag_field_y inp l, demag_field_z inp l)"

section \<open>When a run stays inside its arrays\<close>

text \<open>
  The conditions on the sizes of the vectors under which the accesses of one inner step,
  of one outer step and of the field arrays at cell \<open>i\<close> are all in range.
\<close>

definition tensor_ok :: "dipole_inputs \<Rightarrow> int \<Rightarrow> int \<Rightarrow> bool" where
  "tensor_ok inp l j \<longleftrightarrow>
     in_range (rij_tensor_xx inp) l \<and> in_range (rij_tensor_xx inp ! nat l) j \<and>
     in_range (rij_tensor_xy inp) l \<and> in_range (rij_tensor_xy inp ! nat l) j \<and>
     in_range (rij_tensor_xz inp) l \<and> in_range (rij_tensor_xz inp ! nat l) j \<and>
     in_range (rij_tensor_yy inp) l \<and> in_range (rij_tensor_yy inp ! nat l) j \<and>
     in_range (rij_tensor_yz inp) l \<and> in_range (rij_tensor_yz inp ! nat l) j \<and>
     in_range (rij_tensor_zz inp) l \<and> in_range (rij_tensor_zz inp ! nat l) j"

definition moment_ok :: "dipole_inputs \<Rightarrow> int \<Rightarrow> bool" where
  "moment_ok inp j \<longleftrightarrow> in_range (mag_array_x inp) j \<and> in_range (mag_array_y inp) j \<and> in_range (mag_array_z inp) j"

definition out_ok :: "dipole_fields \<Rightarrow> int \<Rightarrow> bool" where
  "out_ok out i \<longleftrightarrow>
     in_range (cells_field_array_x out) i \<and> in_range (cells_field_array_y out) i \<and>
     in_range (cells_field_array_z out) i \<and> in_range (cells_mu0Hd_field_array_x out) i \<and>
     in_range (cells_mu0Hd_field_array_y out) i \<and> in_range (cells_mu0Hd_field_array_z out) i"

definition source_ok :: "dipole_inputs \<Rightarrow> int \<Rightarrow> int \<Rightarrow> bool" where
  "source_ok inp lc j \<longleftrightarrow>
     in_range (cells_num_atoms_in_cell inp) j \<and>
     (if occupied inp j then moment_ok inp j \<and> tensor_ok inp lc j else True)"

definition cell_ok :: "dipole_inputs \<Rightarrow> int \<Rightarrow> dipole_fields \<Rightarrow> bool" where
  "cell_ok inp lc out \<longleftrightarrow>
     in_range (cell_id_array inp) lc \<and> in_range (cells_num_atoms_in_cell inp) (cell_of inp lc) \<and>
     (if occupied inp (cell_of inp lc)
      then in_range (cells_volume_array inp) (cell_of inp lc) \<and> volume inp (cell_of inp lc) \<noteq> 0 \<and>
           moment_ok inp (cell_of inp lc) \<and>
           out_ok out (cell_of inp lc) \<and> list_all (source_ok inp lc) (all_cells inp)
      else True)"

section \<open>Closed forms of the loops\<close>

text \<open>
  \<open>accumulate\<close> adds a vector to the entries of both fields at index \<open>k\<close>; \<open>set_cell\<close> stores
  six values there; \<open>cell_result\<close> is the effect of one outer step and \<open>log_call\<close> that of
  the diagnostic line. \<open>lens\<close> and \<open>fields_at\<close> observe the sizes of the six field arrays
  and their entries at one index; \<open>writes inp k l\<close> says that the outer step at local index \<open>l\<close>
  stores into entry \<open>k\<close>.
\<close>

definition accumulate :: "nat \<Rightarrow> real \<Rightarrow> real \<Rightarrow> real \<Rightarrow> dipole_fields \<Rightarrow> dipole_fields" where
  "accumulate k dx dy dz out =
     out\<lparr>cells_field_array_x := (cells_field_array_x out)[k := cells_field_array_x out ! k + dx],
         cells_field_array_y := (cells_field_array_y out)[k := cells_field_array_y out ! k + dy],
         cells_field_array_z := (cells_field_array_z out)[k := cells_field_array_z out ! k + dz],
         cells_mu0Hd_field_array_x := (cells_mu0Hd_field_array_x out)[k := cells_mu0Hd_field_array_x out ! k + dx],
         cells_mu0Hd_field_array_y := (cells_mu0Hd_field_array_y out)[k := cells_mu0Hd_field_array_y out ! k + dy],
         cells_mu0Hd_field_array_z := (cells_mu0Hd_field_array_z out)[k := cells_mu0Hd_field_array_z out ! k + dz]\<rparr>"

definition set_cell :: "nat \<Rightarrow> real \<Rightarrow> real \<Rightarrow> real \<Rightarrow> real \<Rightarrow> real \<Rightarrow> real \<Rightarrow> dipole_fields \<Rightarrow> dipole_fields" where
  "set_cell k tx ty tz hx hy hz out =
     out\<lparr>cells_field_array_x := (cells_field_array_x out)[k := tx],
         cells_field_array_y := (cells_field_array_y out)[k := ty],
         cells_field_array_z := (cells_field_array_z out)[k := tz],
         cells_mu0Hd_field_array_x := (cells_mu0Hd_field_array_x out)[k := hx],
         cells_mu0Hd_field_array_y := (cells_mu0Hd_field_array_y out)[k := hy],
         cells_mu0Hd_field_array_z := (cells_mu0Hd_field_array_z out)[k := hz]\<rparr>"

definition cell_result :: "dipole_inputs \<Rightarrow> int \<Rightarrow> dipole_fields \<Rightarrow> dipole_fields" where
  "cell_result inp lc out =
     (if occupied inp (cell_of inp lc)
      then set_cell (nat (cell_of inp lc))
             (total_field_x inp lc) (total_field_y inp lc) (total_field_z inp lc)
             (demag_field_x inp lc) (demag_field_y inp lc) (demag_field_z inp lc) out
      else out)"

definition log_call :: "dipole_inputs \<Rightarrow> dipole_fields \<Rightarrow> dipole_fields" where
  "log_call inp out =
     (if err_check inp then out\<lparr>cerr := cerr out @ [(''dipole::update has been called '', my_rank inp)]\<rparr> else out)"

definition lens :: "dipole_fields \<Rightarrow> nat list" where
  "lens out = [length (cells_field_array_x out), length (cells_field_array_y out),
               length (cells_field_array_z out), length (cells_mu0Hd_field_array_x out),
               length (cells_mu0Hd_field_array_y out), length (cells_mu0Hd_field_array_z out)]"

definition fields_at :: "dipole_fields \<Rightarrow> nat \<Rightarrow> real \<times> real \<times> real \<times> real \<times> real \<times> real" where
  "fields_at out k = (cells_field_array_x out ! k, cells_field_array_y out ! k, cells_field_array_z out ! k,
      cells_mu0Hd_field_array_x out ! k, cells_mu0Hd_field_array_y out ! k, cells_mu0Hd_field_array_z out ! k)"

definition writes :: "dipole_inputs \<Rightarrow> nat \<Rightarrow> int \<Rightarrow> bool" where
  "writes inp k l \<longleftrightarrow> occupied inp (cell_of inp l) \<and> cell_of inp l = int k"

section \<open>Related inputs\<close>

text \<open>
  \<open>scale_moments k\<close> multiplies every moment by \<open>k\<close>. \<open>moments_scaled k inp inp'\<close>: the
  two inputs differ in their moment arrays only, these have the same sizes, and on every
  occupied cell the moment in \<open>inp'\<close> is \<open>k\<close> times the one in \<open>inp\<close>.
  \<open>agree_on_occupied inp mx my mz\<close>: the three arrays have the sizes of the moment arrays
  of \<open>inp\<close> and hold the same moments on every occupied cell.
\<close>

definition scale_moments :: "real \<Rightarrow> dipole_inputs \<Rightarrow> dipole_inputs" where
  "scale_moments k inp =
     inp\<lparr>mag_array_x := map (\<lambda>m. k * m) (mag_array_x inp),
         mag_array_y := map (\<lambda>m. k * m) (mag_array_y inp),
         mag_array_z := map (\<lambda>m. k * m) (mag_array_z inp)\<rparr>"

definition moments_scaled :: "real \<Rightarrow> dipole_inputs \<Rightarrow> dipole_inputs \<Rightarrow> bool" where
  "moments_scaled k inp inp' \<longleftrightarrow>
     inp' = inp\<lparr>mag_array_x := mag_array_x inp', mag_array_y := mag_array_y inp',
                mag_array_z := mag_array_z inp'\<rparr> \<and>
     length (mag_array_x inp') = length (mag_array_x inp) \<and>
     length (mag_array_y inp') = length (mag_array_y inp) \<and>
     length (mag_array_z inp') = length (mag_array_z inp) \<and>
     (\<forall>j. in_range (cells_num_atoms_in_cell inp) j \<and> occupied inp j \<and> moment_ok inp j \<longrightarrow>
          mag_array_x inp' ! nat j = k * mag_array_x inp ! nat j \<and>
          mag_array_y inp' ! nat j = k * mag_array_y inp ! nat j \<and>
          mag_array_z inp' ! nat j = k * mag_array_z inp ! nat j)"

definition agree_on_occupied :: "dipole_inputs \<Rightarrow> real list \<Rightarrow> real list \<Rightarrow> real list \<Rightarrow> bool" where
  "agree_on_occupied inp mx my mz \<longleftrightarrow>
     length mx = length (mag_array_x inp) \<and> length my = length (mag_array_y inp) \<and>
     length mz = length (mag_array_z inp) \<and>
     (\<forall>j. in_range (cells_num_atoms_in_cell inp) j \<and> occupied inp j \<and> moment_ok inp j \<longrightarrow>
          mx ! nat j = mag_array_x inp ! nat j \<and> my ! nat j = mag_array_y inp ! nat j \<and>
          mz ! nat j = mag_array_z inp ! nat j)"

section \<open>Example systems\<close>

text \<open>
  Three cells of volume 1000. Cells 0 and 1 are occupied and owned locally, with moments
  of one Bohr magneton along x and along y; cell 2 is empty, although it has a moment
  and tensor coefficients. The only other coefficients that are not zero are the
  \<open>xy\<close> coefficients between cells 0 and 1.
\<close>

definition ex_inputs :: dipole_inputs where
  "ex_inputs = \<lparr>activated = True, err_check = False, my_rank = 0,
     cells_num_local_cells = 2, cells_num_cells = 3, cell_id_array = [0, 1],
     cells_num_atoms_in_cell = [1, 1, 0], cells_volume_array = [1000, 1000, 1000],
     mag_array_x = [muB, 0, 5 * muB], mag_array_y = [0, muB, 5 * muB], mag_array_z = [0, 0, 5 * muB],
     rij_tensor_xx = [[0, 0, 7], [0, 0, 7]], rij_tensor_xy = [[0, 2, 7], [2, 0, 7]],
     rij_tensor_xz = [[0, 0, 7], [0, 0, 7]], rij_tensor_yy = [[0, 0, 7], [0, 0, 7]],
     rij_tensor_yz = [[0, 0, 7], [0, 0, 7]], rij_tensor_zz = [[0, 0, 7], [0, 0, 7]]\<rparr>"

definition ex_fields :: dipole_fields where
  "ex_fields = \<lparr>cells_field_array_x = [11, 12, 13], cells_field_array_y = [21, 22, 23],
     cells_field_array_z = [31, 32, 33], cells_mu0Hd_field_array_x = [41, 42, 43],
     cells_mu0Hd_field_array_y = [51, 52, 53], cells_mu0Hd_field_array_z = [61, 62, 63],
     cerr = []\<rparr>"

text \<open>The fields after \<open>update_field\<close> has run on the example.\<close>

definition ex_result :: dipole_fields where
  "ex_result = \<lparr>
     cells_field_array_x = [(9274009994 / 10 ^ 10) * (8 * pi / 3000 + 2), 0, 13],
     cells_field_array_y = [0, (9274009994 / 10 ^ 10) * (8 * pi / 3000 + 2), 23],
     cells_field_array_z = [0, 0, 33],
     cells_mu0Hd_field_array_x = [(9274009994 / 10 ^ 10) * (- (1 / 2) * (8 * pi / 3000) + 2), 0, 43],
     cells_mu0Hd_field_array_y = [0, (9274009994 / 10 ^ 10) * (- (1 / 2) * (8 * pi / 3000) + 2), 53],
     cells_mu0Hd_field_array_z = [0, 0, 63],
     cerr = []\<rparr>"

text \<open>
  Two cells of volume 1000, of which only cell 0 is occupied and owned locally, with a
  moment of one Bohr magneton along x. The \<open>xx\<close> coefficient of the cell with itself
  is 1. \<open>one_cell_result\<close> holds the fields after the run, and \<open>one_cell_result0\<close> those
  after the run in which that coefficient is zero as well.
\<close>

definition one_cell_inputs :: dipole_inputs where
  "one_cell_inputs = \<lparr>activated = True, err_check = False, my_rank = 0,
     cells_num_local_cells = 1, cells_num_cells = 2, cell_id_array = [0],
     cells_num_atoms_in_cell = [1, 0], cells_volume_array = [1000, 1000],
     mag_array_x = [muB, 0], mag_array_y = [0, 0], mag_array_z = [0, 0],
     rij_tensor_xx = [[1, 0]], rij_tensor_xy = [[0, 0]],
     rij_tensor_xz = [[0, 0]], rij_tensor_yy = [[0, 0]],
     rij_tensor_yz = [[0, 0]], rij_tensor_zz = [[0, 0]]\<rparr>"

definition one_cell_fields :: dipole_fields where
  "one_cell_fields = \<lparr>cells_field_array_x = [0, 0], cells_field_array_y = [0, 0],
     cells_field_array_z = [0, 0], cells_mu0Hd_field_array_x = [0, 0],
     cells_mu0Hd_field_array_y = [0, 0], cells_mu0Hd_field_array_z = [0, 0],
     cerr = []\<rparr>"

definition one_cell_result :: dipole_fields where
  "one_cell_result = \<lparr>
     cells_field_array_x = [(9274009994 / 10 ^ 10) * (8 * pi / 3000 + 1), 0],
     cells_field_array_y = [0, 0], cells_field_array_z = [0, 0],
     cells_mu0Hd_field_array_x = [(9274009994 / 10 ^ 10) * (- (1 / 2) * (8 * pi / 3000) + 1), 0],
     cells_mu0Hd_field_array_y = [0, 0], cells_mu0Hd_field_array_z = [0, 0],
     cerr = []\<rparr>"

definition one_cell_result0 :: dipole_fields where
  "one_cell_result0 = \<lparr>
     cells_field_array_x = [(9274009994 / 10 ^ 10) * (8 * pi / 3000), 0],
     cells_field_array_y = [0, 0], cells_field_array_z = [0, 0],
     cells_mu0Hd_field_array_x = [(9274009994 / 10 ^ 10) * (- (1 / 2) * (8 * pi / 3000)), 0],
     cells_mu0Hd_field_array_y = [0, 0], cells_mu0Hd_field_array_z = [0, 0],
     cerr = []\<rparr>"

section \<open>Checked indexing\<close>

lemma vec_read_Some: "vec_read xs i = Some v \<longleftrightarrow> in_range xs i \<and> v = xs ! nat i"
  by (auto simp: vec_read_def)

lemma vec_write_Some: "vec_write xs i v = Some ys \<longleftrightarrow> in_range xs i \<and> ys = xs[nat i := v]"
  by (auto simp: vec_write_def)

lemma vec_read2_Some:
  "vec_read2 t l j = Some v \<longleftrightarrow> in_range t l \<and> in_range (t ! nat l) j \<and> v = coeff t l j"
  by (auto simp: vec_read2_def vec_read_def coeff_def split: if_splits)

lemma add_at_Some: "add_at a i d = Some b \<longleftrightarrow> in_range a i \<and> b = a[nat i := a ! nat i + d]"
  by (auto simp: add_at_def vec_read_def vec_write_def)

lemma scale_at_Some: "scale_at a i c = Some b \<longleftrightarrow> in_range a i \<and> b = a[nat i := a ! nat i * c]"
  by (auto simp: scale_at_def vec_read_def vec_write_def)

lemma contract_x_Some:
  "contract_x inp lc j mx my mz = Some d \<longleftrightarrow>
     (in_range (rij_tensor_xx inp) lc \<and> in_range (rij_tensor_xx inp ! nat lc) j \<and>
      in_range (rij_tensor_xy inp) lc \<and> in_range (rij_tensor_xy inp ! nat lc) j \<and>
      in_range (rij_tensor_xz inp) lc \<and> in_range (rij_tensor_xz inp ! nat lc) j) \<and>
     d = mx * coeff (rij_tensor_xx inp) lc j + my * coeff (rij_tensor_xy inp) lc j + mz * coeff (rij_tensor_xz inp) lc j"
  by (auto simp: contract_x_def vec_read2_Some Option.bind_eq_Some_conv)

lemma contract_y_Some:
  "contract_y inp lc j mx my mz = Some d \<longleftrightarrow>
     (in_range (rij_tensor_xy inp) lc \<and> in_range (rij_tensor_xy inp ! nat lc) j \<and>
      in_range (rij_tensor_yy inp) lc \<and> in_range (rij_tensor_yy inp ! nat lc) j \<and>
      in_range (rij_tensor_yz inp) lc \<and> in_range (rij_tensor_yz inp ! nat lc) j) \<and>
     d = mx * coeff (rij_tensor_xy inp) lc j + my * coeff (rij_tensor_yy inp) lc j + mz * coeff (rij_tensor_yz inp) lc j"
  by (auto simp: contract_y_def vec_read2_Some Option.bind_eq_Some_conv)

lemma contract_z_Some:
  "contract_z inp lc j mx my mz = Some d \<longleftrightarrow>
     (in_range (rij_tensor_xz inp) lc \<and> in_range (rij_tensor_xz inp ! nat lc) j \<and>
      in_range (rij_tensor_yz inp) lc \<and> in_range (rij_tensor_yz inp ! nat lc) j \<and>
      in_range (rij_tensor_zz inp) lc \<and> in_range (rij_tensor_zz inp ! nat lc) j) \<and>
     d = mx * coeff (rij_tensor_xz inp) lc j + my * coeff (rij_tensor_yz inp) lc j + mz * coeff (rij_tensor_zz inp) lc j"
  by (auto simp: contract_z_def vec_read2_Some Option.bind_eq_Some_conv)

section \<open>The inner loop\<close>

text \<open>
  One inner step ends exactly when its reads are in range, and then adds the contraction
  of the pair to both fields; the loop adds the sum of the contractions.
\<close>

lemma imuB_muB: "m * imuB = m / muB"
  by (simp add: imuB_def muB_def)

lemma pair_step_Some:
  "pair_step inp lc i j out = Some out' \<longleftrightarrow>
     in_range (cells_num_atoms_in_cell inp) j \<and>
     (if occupied inp j
      then moment_ok inp j \<and> tensor_ok inp lc j \<and> out_ok out i \<and>
           out' = accumulate (nat i) (pair_field_x inp lc j) (pair_field_y inp lc j) (pair_field_z inp lc j) out
      else out' = out)"
  unfolding pair_step_def Let_def
  apply (simp add: Option.bind_eq_Some_conv vec_read_Some add_at_Some contract_x_Some contract_y_Some contract_z_Some
     occupied_def imuB_muB cong: conj_cong)
  apply (auto simp: moment_ok_def tensor_ok_def out_ok_def accumulate_def pair_field_x_def pair_field_y_def pair_field_z_def
      moment_x_def moment_y_def moment_z_def)
  done

lemma upd_add_twice:
  "xs[k := xs[k := xs ! k + a] ! k + b] = xs[k := xs ! k + (a + b :: real)]"
  by (cases "k < length xs") (simp_all add: add.assoc list_update_beyond)

lemma accumulate_zero: "accumulate k 0 0 0 out = out"
  by (simp add: accumulate_def)

lemma accumulate_accumulate:
  "accumulate k a b c (accumulate k a' b' c' out) = accumulate k (a' + a) (b' + b) (c' + c) out"
  by (simp add: accumulate_def upd_add_twice)

lemma out_ok_accumulate: "out_ok (accumulate k a b c out) i = out_ok out i"
  by (simp add: out_ok_def accumulate_def in_range_def)

lemma pair_sum_Nil: "pair_sum_x inp l [] = 0" "pair_sum_y inp l [] = 0" "pair_sum_z inp l [] = 0"
  by (simp_all add: pair_sum_x_def pair_sum_y_def pair_sum_z_def)

lemma pair_sum_Cons:
  "pair_sum_x inp l (j # js) = (if occupied inp j then pair_field_x inp l j + pair_sum_x inp l js else pair_sum_x inp l js)"
  "pair_sum_y inp l (j # js) = (if occupied inp j then pair_field_y inp l j + pair_sum_y inp l js else pair_sum_y inp l js)"
  "pair_sum_z inp l (j # js) = (if occupied inp j then pair_field_z inp l j + pair_sum_z inp l js else pair_sum_z inp l js)"
  by (simp_all add: pair_sum_x_def pair_sum_y_def pair_sum_z_def)

lemma pair_loop_Some:
  "out_ok out i \<Longrightarrow>
   pair_loop inp lc i js out = Some out' \<longleftrightarrow>
     (\<forall>j\<in>set js. source_ok inp lc j) \<and>
     out' = accumulate (nat i) (pair_sum_x inp lc js) (pair_sum_y inp lc js) (pair_sum_z inp lc js) out"
proof (induction js arbitrary: out)
  case Nil
  show ?case by (auto simp: pair_sum_Nil accumulate_zero)
next
  case (Cons j js)
  show ?case
  proof (cases "occupied inp j")
    case True
    let ?o1 = "accumulate (nat i) (pair_field_x inp lc j) (pair_field_y inp lc j) (pair_field_z inp lc j) out"
    have ok1: "out_ok ?o1 i" using Cons.prems by (simp add: out_ok_accumulate)
    show ?thesis
      using True Cons.prems Cons.IH [OF ok1]
      by (auto simp: Option.bind_eq_Some_conv pair_step_Some source_ok_def pair_sum_Cons accumulate_accumulate)
  next
    case False
    show ?thesis
      using False Cons.prems Cons.IH [OF Cons.prems]
      by (auto simp: Option.bind_eq_Some_conv pair_step_Some source_ok_def pair_sum_Cons)
  qed
qed

section \<open>One outer step\<close>

text \<open>
  The outer step at local index \<open>lc\<close> ends exactly when \<open>cell_ok\<close> holds, and its effect is
  \<open>cell_result\<close>: the six entries of an occupied cell are replaced by the values of the
  specification, whatever they were before.
\<close>

lemma in_range_nat: "in_range xs i \<Longrightarrow> nat i < length xs"
  by (simp add: in_range_def nat_less_iff)

lemma self_term_Some:
  "self_term inp i out = Some out0 \<longleftrightarrow>
     in_range (cells_volume_array inp) i \<and> volume inp i \<noteq> 0 \<and> moment_ok inp i \<and> out_ok out i \<and>
     out0 = set_cell (nat i)
              (self_demag (volume inp i) * moment_x inp i)
              (self_demag (volume inp i) * moment_y inp i)
              (self_demag (volume inp i) * moment_z inp i)
              (- (1 / 2) * self_demag (volume inp i) * moment_x inp i)
              (- (1 / 2) * self_demag (volume inp i) * moment_y inp i)
              (- (1 / 2) * self_demag (volume inp i) * moment_z inp i) out"
proof -
  have sd: "8 * M_PI / (3 * V) = self_demag V" for V
    by (simp add: self_demag_def M_PI_def)
  have mx: "mag_array_x inp ! nat i * imuB = moment_x inp i"
    and my: "mag_array_y inp ! nat i * imuB = moment_y inp i"
    and mz: "mag_array_z inp ! nat i * imuB = moment_z inp i"
    by (simp_all add: imuB_muB moment_x_def moment_y_def moment_z_def)
  have vol: "cells_volume_array inp ! nat i = volume inp i"
    by (simp add: volume_def)
  show ?thesis
    unfolding self_term_def Let_def fdiv_def
    by (auto simp: Option.bind_eq_Some_conv vec_read_Some vec_write_Some moment_ok_def out_ok_def
        set_cell_def sd mx my mz vol)
qed

lemma rescale_Some:
  "rescale i out = Some out' \<longleftrightarrow>
     out_ok out i \<and>
     out' = set_cell (nat i)
              (cells_field_array_x out ! nat i * unit_scale)
              (cells_field_array_y out ! nat i * unit_scale)
              (cells_field_array_z out ! nat i * unit_scale)
              (cells_mu0Hd_field_array_x out ! nat i * unit_scale)
              (cells_mu0Hd_field_array_y out ! nat i * unit_scale)
              (cells_mu0Hd_field_array_z out ! nat i * unit_scale) out"
  unfolding rescale_def
  by (auto simp: Option.bind_eq_Some_conv scale_at_Some out_ok_def set_cell_def)

lemma out_ok_set_cell: "out_ok (set_cell k a b c d e f out) i = out_ok out i"
  by (simp add: out_ok_def set_cell_def in_range_def)

lemma rescale_accumulate_set_cell:
  "out_ok out i \<Longrightarrow>
   set_cell (nat i)
     (cells_field_array_x (accumulate (nat i) sx sy sz (set_cell (nat i) a b c d e f out)) ! nat i * u)
     (cells_field_array_y (accumulate (nat i) sx sy sz (set_cell (nat i) a b c d e f out)) ! nat i * u)
     (cells_field_array_z (accumulate (nat i) sx sy sz (set_cell (nat i) a b c d e f out)) ! nat i * u)
     (cells_mu0Hd_field_array_x (accumulate (nat i) sx sy sz (set_cell (nat i) a b c d e f out)) ! nat i * u)
     (cells_mu0Hd_field_array_y (accumulate (nat i) sx sy sz (set_cell (nat i) a b c d e f out)) ! nat i * u)
     (cells_mu0Hd_field_array_z (accumulate (nat i) sx sy sz (set_cell (nat i) a b c d e f out)) ! nat i * u)
     (accumulate (nat i) sx sy sz (set_cell (nat i) a b c d e f out))
   = set_cell (nat i) (u * (a + sx)) (u * (b + sy)) (u * (c + sz)) (u * (d + sx)) (u * (e + sy)) (u * (f + sz)) out"
  by (simp add: out_ok_def in_range_nat set_cell_def accumulate_def mult.commute)

lemma cell_update_Some:
  "cell_update inp lc out = Some out' \<longleftrightarrow> cell_ok inp lc out \<and> out' = cell_result inp lc out"
proof (cases "in_range (cell_id_array inp) lc \<and> in_range (cells_num_atoms_in_cell inp) (cell_of inp lc)")
  case False
  then show ?thesis
    by (auto simp: cell_update_def cell_ok_def cell_of_def Option.bind_eq_Some_conv vec_read_Some)
next
  case inr: True
  show ?thesis
  proof (cases "occupied inp (cell_of inp lc)")
    case False
    with inr show ?thesis
      by (auto simp: cell_update_def cell_ok_def cell_result_def cell_of_def occupied_def
            Option.bind_eq_Some_conv vec_read_Some)
  next
    case occ: True
    let ?i = "cell_of inp lc"
    have cu: "cell_update inp lc out = do {
         out0 \<leftarrow> self_term inp ?i out;
         out1 \<leftarrow> pair_loop inp lc ?i (all_cells inp) out0;
         rescale ?i out1 }"
      using inr occ by (simp add: cell_update_def vec_read_def cell_of_def occupied_def all_cells_def)
    let ?V = "volume inp ?i"
    let ?o0 = "set_cell (nat ?i)
              (self_demag ?V * moment_x inp ?i) (self_demag ?V * moment_y inp ?i) (self_demag ?V * moment_z inp ?i)
              (- (1 / 2) * self_demag ?V * moment_x inp ?i) (- (1 / 2) * self_demag ?V * moment_y inp ?i)
              (- (1 / 2) * self_demag ?V * moment_z inp ?i) out"
    let ?o1 = "accumulate (nat ?i) (pair_sum_x inp lc (all_cells inp)) (pair_sum_y inp lc (all_cells inp))
                 (pair_sum_z inp lc (all_cells inp)) ?o0"
    show ?thesis
    proof (cases "in_range (cells_volume_array inp) ?i \<and> volume inp ?i \<noteq> 0 \<and> moment_ok inp ?i \<and> out_ok out ?i")
      case False
      then have "self_term inp ?i out = None"
        using self_term_Some [of inp ?i out] by (cases "self_term inp ?i out") auto
      then have "cell_update inp lc out = None" unfolding cu by simp
      with False occ show ?thesis by (auto simp: cell_ok_def)
    next
      case ok: True
      then have s0: "self_term inp ?i out = Some ?o0" by (simp add: self_term_Some)
      have ok0: "out_ok ?o0 ?i" using ok by (simp add: out_ok_set_cell)
      show ?thesis
      proof (cases "list_all (source_ok inp lc) (all_cells inp)")
        case False
        then have "pair_loop inp lc ?i (all_cells inp) ?o0 = None"
          using pair_loop_Some [OF ok0, of inp lc "all_cells inp"]
          by (cases "pair_loop inp lc ?i (all_cells inp) ?o0") (auto simp: list_all_iff)
        then have "cell_update inp lc out = None" unfolding cu using s0 by simp
        with False occ show ?thesis by (auto simp: cell_ok_def)
      next
        case True
        then have s1: "pair_loop inp lc ?i (all_cells inp) ?o0 = Some ?o1"
          using pair_loop_Some [OF ok0, of inp lc "all_cells inp" ?o1] by (simp add: list_all_iff)
        have ok1: "out_ok ?o1 ?i" using ok0 by (simp add: out_ok_accumulate)
        have "rescale ?i ?o1 = Some (cell_result inp lc out)"
          unfolding rescale_Some
          using ok ok1 occ rescale_accumulate_set_cell [of out ?i _ _ _ _ _ _ _ _ _ unit_scale]
          by (simp add: cell_result_def total_field_x_def total_field_y_def total_field_z_def
              demag_field_x_def demag_field_y_def demag_field_z_def Let_def unit_scale_def)
        then have "cell_update inp lc out = Some (cell_result inp lc out)"
          unfolding cu using s0 s1 by simp
        with True inr occ ok show ?thesis by (auto simp: cell_ok_def)
      qed
    qed
  qed
qed

section \<open>The outer loop and the whole function\<close>

text \<open>
  \<open>update_field\<close> ends exactly when every outer step stays in range, and then folds
  \<open>cell_result\<close> over the local indices.
\<close>

lemma out_ok_lens: "lens out = lens out' \<Longrightarrow> out_ok out i = out_ok out' i"
  by (simp add: lens_def out_ok_def in_range_def)

lemma cell_ok_lens: "lens out = lens out' \<Longrightarrow> cell_ok inp lc out = cell_ok inp lc out'"
  by (simp add: cell_ok_def out_ok_lens [of out out'])

lemma lens_set_cell: "lens (set_cell k a b c d e f out) = lens out"
  by (simp add: lens_def set_cell_def)

lemma lens_cell_result: "lens (cell_result inp lc out) = lens out"
  by (simp add: cell_result_def lens_set_cell)

lemma lens_fold_cell_result: "lens (fold (cell_result inp) lcs out) = lens out"
  by (induction lcs arbitrary: out) (simp_all add: lens_cell_result)

lemma local_loop_Some:
  "local_loop inp lcs out = Some out' \<longleftrightarrow>
     list_all (\<lambda>lc. cell_ok inp lc out) lcs \<and> out' = fold (cell_result inp) lcs out"
proof (induction lcs arbitrary: out)
  case Nil
  show ?case by auto
next
  case (Cons lc lcs)
  have "cell_ok inp l (cell_result inp lc out) = cell_ok inp l out" for l
    by (rule cell_ok_lens) (rule lens_cell_result)
  then show ?case
    by (auto simp: Option.bind_eq_Some_conv cell_update_Some Cons.IH)
qed

lemma lens_log_call: "lens (log_call inp out) = lens out"
  by (simp add: log_call_def lens_def)

lemma fields_at_log_call: "fields_at (log_call inp out) k = fields_at out k"
  by (simp add: log_call_def fields_at_def)

lemma update_field_Some:
  "update_field inp out = Some out' \<longleftrightarrow>
     (if activated inp
      then list_all (\<lambda>lc. cell_ok inp lc out) (local_cells inp) \<and>
           out' = fold (cell_result inp) (local_cells inp) (log_call inp out)
      else out' = out)"
proof -
  have "cell_ok inp l (log_call inp out) = cell_ok inp l out" for l
    by (rule cell_ok_lens) (rule lens_log_call)
  then show ?thesis
    by (auto simp: update_field_def Let_def local_loop_Some local_cells_def log_call_def)
qed

lemma update_field_returns:
  "(\<exists>out'. update_field inp out = Some out') \<longleftrightarrow>
     (activated inp \<longrightarrow> list_all (\<lambda>lc. cell_ok inp lc out) (local_cells inp))"
  by (cases "activated inp") (simp_all add: update_field_Some)

section \<open>The entries after a run\<close>

text \<open>
  An entry holds the values of the last outer step that writes it, and its old values
  when no step writes it.
\<close>

lemma fields_at_set_cell:
  "out_ok out i \<Longrightarrow>
   fields_at (set_cell (nat i) a b c d e f out) k = (if k = nat i then (a, b, c, d, e, f) else fields_at out k)"
  by (simp add: fields_at_def set_cell_def out_ok_def in_range_nat)

lemma fields_at_cell_result:
  assumes "cell_ok inp lc out"
  shows "fields_at (cell_result inp lc out) k = (if writes inp k lc then cell_fields inp lc else fields_at out k)"
proof (cases "occupied inp (cell_of inp lc)")
  case False
  then show ?thesis by (simp add: cell_result_def writes_def)
next
  case True
  with assms have ok: "out_ok out (cell_of inp lc)" and nn: "0 \<le> cell_of inp lc"
    by (simp_all add: cell_ok_def in_range_def)
  from nn have "k = nat (cell_of inp lc) \<longleftrightarrow> cell_of inp lc = int k" by auto
  with True ok show ?thesis
    by (simp add: cell_result_def writes_def fields_at_set_cell cell_fields_def)
qed

lemma fold_cell_result_frame:
  "list_all (\<lambda>lc. cell_ok inp lc out) lcs \<Longrightarrow> list_all (\<lambda>lc. \<not> writes inp k lc) lcs \<Longrightarrow>
   fields_at (fold (cell_result inp) lcs out) k = fields_at out k"
proof (induction lcs arbitrary: out)
  case Nil
  show ?case by simp
next
  case (Cons lc lcs)
  have "cell_ok inp l (cell_result inp lc out) = cell_ok inp l out" for l
    by (rule cell_ok_lens) (rule lens_cell_result)
  with Cons.prems have "list_all (\<lambda>l. cell_ok inp l (cell_result inp lc out)) lcs" by simp
  with Cons.IH [of "cell_result inp lc out"] Cons.prems show ?case
    by (simp add: fields_at_cell_result)
qed

lemma fold_cell_result_last:
  assumes ok: "list_all (\<lambda>lc. cell_ok inp lc out) (pre @ l # post)"
    and w: "writes inp k l" and post: "list_all (\<lambda>lc. \<not> writes inp k lc) post"
  shows "fields_at (fold (cell_result inp) (pre @ l # post) out) k = cell_fields inp l"
proof -
  let ?o1 = "fold (cell_result inp) pre out"
  let ?o2 = "cell_result inp l ?o1"
  have l1: "lens ?o1 = lens out" by (rule lens_fold_cell_result)
  have l2: "lens ?o2 = lens out" by (simp add: lens_cell_result l1)
  have ok1: "cell_ok inp l ?o1" using ok cell_ok_lens [OF l1] by simp
  have ok2: "list_all (\<lambda>lc. cell_ok inp lc ?o2) post" using ok cell_ok_lens [OF l2] by simp
  have "fields_at (fold (cell_result inp) post ?o2) k = fields_at ?o2 k"
    by (rule fold_cell_result_frame [OF ok2 post])
  also have "\<dots> = cell_fields inp l" using w by (simp add: fields_at_cell_result [OF ok1])
  finally show ?thesis by simp
qed

lemma local_cells_split:
  "0 \<le> l \<Longrightarrow> l < cells_num_local_cells inp \<Longrightarrow>
   local_cells inp = [0 .. l - 1] @ l # [l + 1 .. cells_num_local_cells inp - 1]"
  by (simp add: local_cells_def upto_split3)

lemma written_cell:
  assumes act: "activated inp" and run: "update_field inp out = Some out'"
    and l: "0 \<le> l" "l < cells_num_local_cells inp"
    and occ: "occupied inp (cell_of inp l)"
    and last: "\<forall>l'. l < l' \<and> l' < cells_num_local_cells inp \<longrightarrow> cell_of inp l' \<noteq> cell_of inp l"
  shows "fields_at out' (nat (cell_of inp l)) = cell_fields inp l" and "cell_ok inp l out"
proof -
  let ?pre = "[0 .. l - 1]" and ?post = "[l + 1 .. cells_num_local_cells inp - 1]"
  let ?k = "nat (cell_of inp l)"
  from run act have ok: "list_all (\<lambda>lc. cell_ok inp lc out) (local_cells inp)"
    and out': "out' = fold (cell_result inp) (local_cells inp) (log_call inp out)"
    by (simp_all add: update_field_Some)
  have split: "local_cells inp = ?pre @ l # ?post" by (rule local_cells_split [OF l])
  from ok show c: "cell_ok inp l out" by (simp add: split)
  then have nn: "0 \<le> cell_of inp l" by (simp add: cell_ok_def in_range_def)
  have ok': "list_all (\<lambda>lc. cell_ok inp lc (log_call inp out)) (?pre @ l # ?post)"
    using ok cell_ok_lens [OF lens_log_call, of inp _ inp out] by (simp add: split)
  have w: "writes inp ?k l" using occ nn by (simp add: writes_def)
  have post: "list_all (\<lambda>lc. \<not> writes inp ?k lc) ?post"
    using last nn by (auto simp: list_all_iff writes_def)
  show "fields_at out' ?k = cell_fields inp l"
    unfolding out' split by (rule fold_cell_result_last [OF ok' w post])
qed

lemma unwritten_cell:
  assumes run: "update_field inp out = Some out'"
    and k: "list_all (\<lambda>lc. \<not> writes inp k lc) (local_cells inp)"
  shows "fields_at out' k = fields_at out k"
proof (cases "activated inp")
  case False
  with run show ?thesis by (simp add: update_field_Some)
next
  case True
  with run have ok: "list_all (\<lambda>lc. cell_ok inp lc out) (local_cells inp)"
    and out': "out' = fold (cell_result inp) (local_cells inp) (log_call inp out)"
    by (simp_all add: update_field_Some)
  have ok': "list_all (\<lambda>lc. cell_ok inp lc (log_call inp out)) (local_cells inp)"
    using ok cell_ok_lens [OF lens_log_call, of inp _ inp out] by simp
  show ?thesis
    unfolding out' using fold_cell_result_frame [OF ok' k] by (simp add: fields_at_log_call)
qed

section \<open>The example run\<close>

lemmas run_defs = update_field_def cell_update_def
        self_term_def rescale_def pair_step_def contract_x_def contract_y_def contract_z_def
        add_at_def scale_at_def vec_read_def vec_write_def vec_read2_def in_range_def fdiv_def
        M_PI_def imuB_def muB_def unit_scale_def Let_def upto.simps

lemma ex_run: "update_field ex_inputs ex_fields = Some ex_result"
  by (simp add: ex_inputs_def ex_fields_def ex_result_def run_defs)

lemma one_cell_run: "update_field one_cell_inputs one_cell_fields = Some one_cell_result"
  by (simp add: one_cell_inputs_def one_cell_fields_def one_cell_result_def run_defs)

lemma one_cell_run0:
  "update_field (one_cell_inputs\<lparr>rij_tensor_xx := [[0, 0]]\<rparr>) one_cell_fields = Some one_cell_result0"
  by (simp add: one_cell_inputs_def one_cell_fields_def one_cell_result0_def run_defs)

lemma ex_last_local: "\<forall>l'. 0 < l' \<and> l' < cells_num_local_cells ex_inputs \<longrightarrow> cell_of ex_inputs l' \<noteq> 0"
proof (intro allI impI)
  fix l' :: int
  assume "0 < l' \<and> l' < cells_num_local_cells ex_inputs"
  then have "l' = 1" by (simp add: ex_inputs_def)
  then show "cell_of ex_inputs l' \<noteq> 0" by (simp add: ex_inputs_def cell_of_def)
qed

section \<open>The activation gate\<close>

text \<open>
  C3. When the activation flag is false, \<open>update_field\<close> returns at once: whatever the
  two output arrays hold, they are unchanged at every index (the whole output state is
  the one the call started from).
\<close>

theorem update_field_inactive:
  "\<not> activated inp \<Longrightarrow> update_field inp out = Some out"
  by (simp add: update_field_def)

theorem update_field_inactive_witness:
  "\<not> activated (ex_inputs\<lparr>activated := False\<rparr>) \<and>
   update_field (ex_inputs\<lparr>activated := False\<rparr>) ex_fields = Some ex_fields"
  using update_field_inactive [of "ex_inputs\<lparr>activated := False\<rparr>" ex_fields]
  by simp

section \<open>The fields of an owned, occupied cell\<close>

text \<open>
  C1. Let the subsystem be activated and \<open>update_field\<close> run to its end. For every cell
  \<open>i\<close> that is owned locally, at local index \<open>l\<close> (the last local index that holds \<open>i\<close>;
  the Local Cell Set has no duplicates), and whose occupancy count is positive, the
  three components of the total dipolar field at \<open>i\<close> are \<open>0.9274009994\<close> times
  (\<open>self_demag\<close> of the volume of \<open>i\<close> times the normalised moment of \<open>i\<close>, plus the sum
  over every global cell \<open>j\<close> with positive occupancy of the contraction of the symmetric
  tensor of \<open>(l, j)\<close> with the normalised moment of \<open>j\<close>), and the three components of the
  demagnetizing pseudo-field are the same with the self term multiplied by \<open>-0.5\<close>.
\<close>

theorem update_field_values:
  assumes "activated inp" and "update_field inp out = Some out'"
    and "0 \<le> l" and "l < cells_num_local_cells inp"
    and "i = cell_of inp l" and "occupied inp i"
    and "\<forall>l'. l < l' \<and> l' < cells_num_local_cells inp \<longrightarrow> cell_of inp l' \<noteq> i"
  shows "cells_field_array_x out' ! nat i =
           (9274009994 / 10 ^ 10) * (self_demag (volume inp i) * moment_x inp i + pair_sum_x inp l (all_cells inp)) \<and>
         cells_field_array_y out' ! nat i =
           (9274009994 / 10 ^ 10) * (self_demag (volume inp i) * moment_y inp i + pair_sum_y inp l (all_cells inp)) \<and>
         cells_field_array_z out' ! nat i =
           (9274009994 / 10 ^ 10) * (self_demag (volume inp i) * moment_z inp i + pair_sum_z inp l (all_cells inp)) \<and>
         cells_mu0Hd_field_array_x out' ! nat i =
           (9274009994 / 10 ^ 10) * (- (1 / 2) * self_demag (volume inp i) * moment_x inp i + pair_sum_x inp l (all_cells inp)) \<and>
         cells_mu0Hd_field_array_y out' ! nat i =
           (9274009994 / 10 ^ 10) * (- (1 / 2) * self_demag (volume inp i) * moment_y inp i + pair_sum_y inp l (all_cells inp)) \<and>
         cells_mu0Hd_field_array_z out' ! nat i =
           (9274009994 / 10 ^ 10) * (- (1 / 2) * self_demag (volume inp i) * moment_z inp i + pair_sum_z inp l (all_cells inp))"
proof -
  have "fields_at out' (nat (cell_of inp l)) = cell_fields inp l"
    using assms by (intro written_cell(1)) simp_all
  then show ?thesis
    unfolding \<open>i = cell_of inp l\<close>
    by (simp add: fields_at_def cell_fields_def total_field_x_def total_field_y_def total_field_z_def
          demag_field_x_def demag_field_y_def demag_field_z_def Let_def)
qed

theorem update_field_values_witness:
  "activated ex_inputs \<and> update_field ex_inputs ex_fields = Some ex_result \<and>
   cell_of ex_inputs 0 = 0 \<and> occupied ex_inputs 0 \<and>
   cells_field_array_x ex_result ! 0 = (9274009994 / 10 ^ 10) * (self_demag 1000 * 1 + 2) \<and>
   cells_field_array_y ex_result ! 0 = (9274009994 / 10 ^ 10) * (self_demag 1000 * 0 + 0) \<and>
   cells_field_array_z ex_result ! 0 = (9274009994 / 10 ^ 10) * (self_demag 1000 * 0 + 0) \<and>
   cells_mu0Hd_field_array_x ex_result ! 0 = (9274009994 / 10 ^ 10) * (- (1 / 2) * self_demag 1000 * 1 + 2) \<and>
   cells_mu0Hd_field_array_y ex_result ! 0 = (9274009994 / 10 ^ 10) * (- (1 / 2) * self_demag 1000 * 0 + 0) \<and>
   cells_mu0Hd_field_array_z ex_result ! 0 = (9274009994 / 10 ^ 10) * (- (1 / 2) * self_demag 1000 * 0 + 0)"
proof -
  have a: "activated ex_inputs" by (simp add: ex_inputs_def)
  have c: "0 = cell_of ex_inputs 0" by (simp add: ex_inputs_def cell_of_def)
  have o: "occupied ex_inputs 0" by (simp add: ex_inputs_def occupied_def)
  have n: "(0::int) < cells_num_local_cells ex_inputs" by (simp add: ex_inputs_def)
  have v: "volume ex_inputs 0 = 1000" by (simp add: ex_inputs_def volume_def)
  have m: "moment_x ex_inputs 0 = 1" "moment_y ex_inputs 0 = 0" "moment_z ex_inputs 0 = 0"
    by (simp_all add: ex_inputs_def moment_x_def moment_y_def moment_z_def muB_def)
  have s: "pair_sum_x ex_inputs 0 (all_cells ex_inputs) = 2"
          "pair_sum_y ex_inputs 0 (all_cells ex_inputs) = 0"
          "pair_sum_z ex_inputs 0 (all_cells ex_inputs) = 0"
    by (simp_all add: pair_sum_x_def pair_sum_y_def pair_sum_z_def all_cells_def occupied_def
          pair_field_x_def pair_field_y_def pair_field_z_def moment_x_def moment_y_def moment_z_def
          coeff_def ex_inputs_def muB_def upto.simps)
  from update_field_values [OF a ex_run order_refl n c o ex_last_local] a ex_run c o
  show ?thesis by (simp add: v m s)
qed

text \<open>
  C6. Under the same conditions the two fields of the cell differ only in their self
  term: the total dipolar field minus the demagnetizing pseudo-field is, in each
  component, \<open>1.5\<close> times \<open>0.9274009994\<close> times \<open>self_demag\<close> of the volume times the
  normalised moment.
\<close>

theorem update_field_difference:
  assumes "activated inp" and "update_field inp out = Some out'"
    and "0 \<le> l" and "l < cells_num_local_cells inp"
    and "i = cell_of inp l" and "occupied inp i"
    and "\<forall>l'. l < l' \<and> l' < cells_num_local_cells inp \<longrightarrow> cell_of inp l' \<noteq> i"
  shows "cells_field_array_x out' ! nat i - cells_mu0Hd_field_array_x out' ! nat i =
           (3 / 2) * (9274009994 / 10 ^ 10) * self_demag (volume inp i) * moment_x inp i \<and>
         cells_field_array_y out' ! nat i - cells_mu0Hd_field_array_y out' ! nat i =
           (3 / 2) * (9274009994 / 10 ^ 10) * self_demag (volume inp i) * moment_y inp i \<and>
         cells_field_array_z out' ! nat i - cells_mu0Hd_field_array_z out' ! nat i =
           (3 / 2) * (9274009994 / 10 ^ 10) * self_demag (volume inp i) * moment_z inp i"
proof -
  have "fields_at out' (nat (cell_of inp l)) = cell_fields inp l"
    using assms by (intro written_cell(1)) simp_all
  then show ?thesis
    unfolding \<open>i = cell_of inp l\<close>
    by (simp add: fields_at_def cell_fields_def total_field_x_def total_field_y_def total_field_z_def
          demag_field_x_def demag_field_y_def demag_field_z_def Let_def algebra_simps)
qed

theorem update_field_difference_witness:
  "activated ex_inputs \<and> update_field ex_inputs ex_fields = Some ex_result \<and>
   cell_of ex_inputs 0 = 0 \<and> occupied ex_inputs 0 \<and>
   cells_field_array_x ex_result ! 0 - cells_mu0Hd_field_array_x ex_result ! 0 =
     (3 / 2) * (9274009994 / 10 ^ 10) * self_demag 1000 * 1 \<and>
   cells_field_array_y ex_result ! 0 - cells_mu0Hd_field_array_y ex_result ! 0 =
     (3 / 2) * (9274009994 / 10 ^ 10) * self_demag 1000 * 0 \<and>
   cells_field_array_z ex_result ! 0 - cells_mu0Hd_field_array_z ex_result ! 0 =
     (3 / 2) * (9274009994 / 10 ^ 10) * self_demag 1000 * 0"
proof -
  have a: "activated ex_inputs" by (simp add: ex_inputs_def)
  have c: "0 = cell_of ex_inputs 0" by (simp add: ex_inputs_def cell_of_def)
  have o: "occupied ex_inputs 0" by (simp add: ex_inputs_def occupied_def)
  have n: "(0::int) < cells_num_local_cells ex_inputs" by (simp add: ex_inputs_def)
  have v: "volume ex_inputs 0 = 1000" by (simp add: ex_inputs_def volume_def)
  have m: "moment_x ex_inputs 0 = 1" "moment_y ex_inputs 0 = 0" "moment_z ex_inputs 0 = 0"
    by (simp_all add: ex_inputs_def moment_x_def moment_y_def moment_z_def muB_def)
  from update_field_difference [OF a ex_run order_refl n c o ex_last_local] a ex_run c o
  show ?thesis by (simp add: v m)
qed

section \<open>The entries that are not written\<close>

lemma all_not_writes:
  "cells_num_atoms_in_cell inp ! k \<le> 0 \<or> int k \<notin> set (local_cell_ids inp) \<Longrightarrow>
   list_all (\<lambda>lc. \<not> writes inp k lc) (local_cells inp)"
  by (force simp: list_all_iff writes_def occupied_def local_cell_ids_def image_iff)

text \<open>
  C4. If \<open>update_field\<close> runs to its end, then at every index \<open>k\<close> of a cell whose
  occupancy count is zero (or less), or that is not in the Local Cell Set, the six
  entries of the two output arrays are the ones they were before the call: the entry is
  not written and not set to zero.
\<close>

theorem update_field_frame:
  assumes "update_field inp out = Some out'"
    and "cells_num_atoms_in_cell inp ! k \<le> 0 \<or> int k \<notin> set (local_cell_ids inp)"
  shows "cells_field_array_x out' ! k = cells_field_array_x out ! k \<and>
         cells_field_array_y out' ! k = cells_field_array_y out ! k \<and>
         cells_field_array_z out' ! k = cells_field_array_z out ! k \<and>
         cells_mu0Hd_field_array_x out' ! k = cells_mu0Hd_field_array_x out ! k \<and>
         cells_mu0Hd_field_array_y out' ! k = cells_mu0Hd_field_array_y out ! k \<and>
         cells_mu0Hd_field_array_z out' ! k = cells_mu0Hd_field_array_z out ! k"
proof -
  have "fields_at out' k = fields_at out k"
    using assms(1) all_not_writes [OF assms(2)] by (rule unwritten_cell)
  then show ?thesis by (simp add: fields_at_def)
qed

theorem update_field_frame_witness:
  "update_field ex_inputs ex_fields = Some ex_result \<and>
   cells_num_atoms_in_cell ex_inputs ! 2 = 0 \<and> 2 \<notin> set (local_cell_ids ex_inputs) \<and>
   cells_field_array_x ex_result ! 2 = 13 \<and> cells_field_array_y ex_result ! 2 = 23 \<and>
   cells_field_array_z ex_result ! 2 = 33 \<and> cells_mu0Hd_field_array_x ex_result ! 2 = 43 \<and>
   cells_mu0Hd_field_array_y ex_result ! 2 = 53 \<and> cells_mu0Hd_field_array_z ex_result ! 2 = 63"
proof -
  have z: "cells_num_atoms_in_cell ex_inputs ! 2 = 0" by (simp add: ex_inputs_def)
  have nl: "2 \<notin> set (local_cell_ids ex_inputs)"
    by (simp add: local_cell_ids_def local_cells_def cell_of_def ex_inputs_def upto.simps)
  have h: "cells_num_atoms_in_cell ex_inputs ! 2 \<le> 0 \<or> int 2 \<notin> set (local_cell_ids ex_inputs)"
    using z by simp
  from update_field_frame [OF ex_run h] ex_run z nl
  show ?thesis by (simp add: ex_fields_def)
qed

section \<open>A single occupied cell\<close>

text \<open>
  C2, as stated, fails: the inner loop visits every occupied cell, the cell itself
  included, so the tensor of the cell with itself contributes to both fields. In the
  one-cell example, whose \<open>xx\<close> coefficient is 1, the total dipolar field of the cell is
  \<open>0.9274009994 (8 pi / 3000 + 1)\<close>, not \<open>self_demag 1000\<close> times the moment times
  \<open>0.9274009994\<close>, and the pseudo-field is not \<open>-0.5\<close> times that value.
\<close>

theorem single_cell_counterexample:
  "activated one_cell_inputs \<and>
   filter (occupied one_cell_inputs) (all_cells one_cell_inputs) = [0] \<and>
   volume one_cell_inputs 0 = 1000 \<and> moment_x one_cell_inputs 0 = 1 \<and>
   update_field one_cell_inputs one_cell_fields = Some one_cell_result \<and>
   cells_field_array_x one_cell_result ! 0 \<noteq> self_demag 1000 * 1 * (9274009994 / 10 ^ 10) \<and>
   cells_mu0Hd_field_array_x one_cell_result ! 0 \<noteq> - (1 / 2) * (self_demag 1000 * 1 * (9274009994 / 10 ^ 10))"
proof -
  have "filter (occupied one_cell_inputs) (all_cells one_cell_inputs) = [0]"
    by (simp add: one_cell_inputs_def occupied_def all_cells_def upto.simps)
  moreover have "volume one_cell_inputs 0 = 1000" "moment_x one_cell_inputs 0 = 1" "activated one_cell_inputs"
    by (simp_all add: one_cell_inputs_def volume_def moment_x_def muB_def)
  moreover have "cells_field_array_x one_cell_result ! 0 \<noteq> self_demag 1000 * 1 * (9274009994 / 10 ^ 10)"
    by (simp add: one_cell_result_def self_demag_def algebra_simps)
  moreover have "cells_mu0Hd_field_array_x one_cell_result ! 0 \<noteq> - (1 / 2) * (self_demag 1000 * 1 * (9274009994 / 10 ^ 10))"
    by (simp add: one_cell_result_def self_demag_def algebra_simps)
  ultimately show ?thesis using one_cell_run by simp
qed

text \<open>
  C2, amended. Let exactly one cell \<open>i\<close> be occupied, let it be owned locally at local
  index \<open>l\<close>, and let the six tensor coefficients of the pair \<open>(l, i)\<close> be zero. Then after
  \<open>update_field\<close> the total dipolar field of \<open>i\<close> is \<open>self_demag\<close> of its volume times
  its normalised moment times \<open>0.9274009994\<close>, and its demagnetizing pseudo-field is
  exactly \<open>-0.5\<close> times that value.
\<close>

theorem single_cell_fields:
  assumes act: "activated inp" and run: "update_field inp out = Some out'"
    and l: "0 \<le> l" "l < cells_num_local_cells inp" and i: "i = cell_of inp l"
    and last: "\<forall>l'. l < l' \<and> l' < cells_num_local_cells inp \<longrightarrow> cell_of inp l' \<noteq> i"
    and one: "filter (occupied inp) (all_cells inp) = [i]"
    and zero: "coeff (rij_tensor_xx inp) l i = 0" "coeff (rij_tensor_xy inp) l i = 0"
      "coeff (rij_tensor_xz inp) l i = 0" "coeff (rij_tensor_yy inp) l i = 0"
      "coeff (rij_tensor_yz inp) l i = 0" "coeff (rij_tensor_zz inp) l i = 0"
  shows "cells_field_array_x out' ! nat i = self_demag (volume inp i) * moment_x inp i * (9274009994 / 10 ^ 10) \<and>
         cells_field_array_y out' ! nat i = self_demag (volume inp i) * moment_y inp i * (9274009994 / 10 ^ 10) \<and>
         cells_field_array_z out' ! nat i = self_demag (volume inp i) * moment_z inp i * (9274009994 / 10 ^ 10) \<and>
         cells_mu0Hd_field_array_x out' ! nat i =
           - (1 / 2) * (self_demag (volume inp i) * moment_x inp i * (9274009994 / 10 ^ 10)) \<and>
         cells_mu0Hd_field_array_y out' ! nat i =
           - (1 / 2) * (self_demag (volume inp i) * moment_y inp i * (9274009994 / 10 ^ 10)) \<and>
         cells_mu0Hd_field_array_z out' ! nat i =
           - (1 / 2) * (self_demag (volume inp i) * moment_z inp i * (9274009994 / 10 ^ 10))"
proof -
  have "i \<in> set (filter (occupied inp) (all_cells inp))" by (simp add: one)
  then have occ: "occupied inp (cell_of inp l)" using i by simp
  have "fields_at out' (nat (cell_of inp l)) = cell_fields inp l"
    using act run l occ last i by (intro written_cell(1)) simp_all
  moreover have "pair_sum_x inp l (all_cells inp) = 0" "pair_sum_y inp l (all_cells inp) = 0"
      "pair_sum_z inp l (all_cells inp) = 0"
    by (simp_all add: pair_sum_x_def pair_sum_y_def pair_sum_z_def one
          pair_field_x_def pair_field_y_def pair_field_z_def zero)
  ultimately show ?thesis
    unfolding i
    by (simp add: fields_at_def cell_fields_def total_field_x_def total_field_y_def total_field_z_def
          demag_field_x_def demag_field_y_def demag_field_z_def Let_def)
qed

theorem single_cell_fields_witness:
  "activated (one_cell_inputs\<lparr>rij_tensor_xx := [[0, 0]]\<rparr>) \<and>
   update_field (one_cell_inputs\<lparr>rij_tensor_xx := [[0, 0]]\<rparr>) one_cell_fields = Some one_cell_result0 \<and>
   filter (occupied (one_cell_inputs\<lparr>rij_tensor_xx := [[0, 0]]\<rparr>))
          (all_cells (one_cell_inputs\<lparr>rij_tensor_xx := [[0, 0]]\<rparr>)) = [0] \<and>
   cells_field_array_x one_cell_result0 ! 0 = self_demag 1000 * 1 * (9274009994 / 10 ^ 10) \<and>
   cells_mu0Hd_field_array_x one_cell_result0 ! 0 = - (1 / 2) * (self_demag 1000 * 1 * (9274009994 / 10 ^ 10))"
proof -
  let ?inp = "one_cell_inputs\<lparr>rij_tensor_xx := [[0, 0]]\<rparr>"
  have a: "activated ?inp" by (simp add: one_cell_inputs_def)
  have c: "0 = cell_of ?inp 0" by (simp add: one_cell_inputs_def cell_of_def)
  have n: "(0::int) < cells_num_local_cells ?inp" by (simp add: one_cell_inputs_def)
  have last: "\<forall>l'. 0 < l' \<and> l' < cells_num_local_cells ?inp \<longrightarrow> cell_of ?inp l' \<noteq> 0"
    by (simp add: one_cell_inputs_def)
  have one: "filter (occupied ?inp) (all_cells ?inp) = [0]"
    by (simp add: one_cell_inputs_def occupied_def all_cells_def upto.simps)
  have z: "coeff (rij_tensor_xx ?inp) 0 0 = 0" "coeff (rij_tensor_xy ?inp) 0 0 = 0"
      "coeff (rij_tensor_xz ?inp) 0 0 = 0" "coeff (rij_tensor_yy ?inp) 0 0 = 0"
      "coeff (rij_tensor_yz ?inp) 0 0 = 0" "coeff (rij_tensor_zz ?inp) 0 0 = 0"
    by (simp_all add: one_cell_inputs_def coeff_def)
  have v: "volume ?inp 0 = 1000" "moment_x ?inp 0 = 1"
    by (simp_all add: one_cell_inputs_def volume_def moment_x_def muB_def)
  from single_cell_fields [OF a one_cell_run0 order_refl n c last one z] a one_cell_run0 one
  show ?thesis by (simp add: v)
qed

section \<open>Inputs that differ in their moments\<close>

lemma moments_scaled_same:
  assumes "moments_scaled k inp inp'"
  shows "activated inp' = activated inp" "err_check inp' = err_check inp" "my_rank inp' = my_rank inp"
    "cells_num_local_cells inp' = cells_num_local_cells inp" "cells_num_cells inp' = cells_num_cells inp"
    "cell_id_array inp' = cell_id_array inp" "cells_num_atoms_in_cell inp' = cells_num_atoms_in_cell inp"
    "cells_volume_array inp' = cells_volume_array inp"
    "rij_tensor_xx inp' = rij_tensor_xx inp" "rij_tensor_xy inp' = rij_tensor_xy inp"
    "rij_tensor_xz inp' = rij_tensor_xz inp" "rij_tensor_yy inp' = rij_tensor_yy inp"
    "rij_tensor_yz inp' = rij_tensor_yz inp" "rij_tensor_zz inp' = rij_tensor_zz inp"
proof -
  from assms have eq: "inp' = inp\<lparr>mag_array_x := mag_array_x inp', mag_array_y := mag_array_y inp',
                mag_array_z := mag_array_z inp'\<rparr>" by (simp add: moments_scaled_def)
  show "activated inp' = activated inp" using arg_cong [OF eq, of activated] by simp
  show "err_check inp' = err_check inp" using arg_cong [OF eq, of err_check] by simp
  show "my_rank inp' = my_rank inp" using arg_cong [OF eq, of my_rank] by simp
  show "cells_num_local_cells inp' = cells_num_local_cells inp" using arg_cong [OF eq, of cells_num_local_cells] by simp
  show "cells_num_cells inp' = cells_num_cells inp" using arg_cong [OF eq, of cells_num_cells] by simp
  show "cell_id_array inp' = cell_id_array inp" using arg_cong [OF eq, of cell_id_array] by simp
  show "cells_num_atoms_in_cell inp' = cells_num_atoms_in_cell inp" using arg_cong [OF eq, of cells_num_atoms_in_cell] by simp
  show "cells_volume_array inp' = cells_volume_array inp" using arg_cong [OF eq, of cells_volume_array] by simp
  show "rij_tensor_xx inp' = rij_tensor_xx inp" using arg_cong [OF eq, of rij_tensor_xx] by simp
  show "rij_tensor_xy inp' = rij_tensor_xy inp" using arg_cong [OF eq, of rij_tensor_xy] by simp
  show "rij_tensor_xz inp' = rij_tensor_xz inp" using arg_cong [OF eq, of rij_tensor_xz] by simp
  show "rij_tensor_yy inp' = rij_tensor_yy inp" using arg_cong [OF eq, of rij_tensor_yy] by simp
  show "rij_tensor_yz inp' = rij_tensor_yz inp" using arg_cong [OF eq, of rij_tensor_yz] by simp
  show "rij_tensor_zz inp' = rij_tensor_zz inp" using arg_cong [OF eq, of rij_tensor_zz] by simp
qed

lemma moments_scaled_views:
  assumes "moments_scaled k inp inp'"
  shows "occupied inp' = occupied inp" "cell_of inp' = cell_of inp" "volume inp' = volume inp"
    "all_cells inp' = all_cells inp" "local_cells inp' = local_cells inp"
    "moment_ok inp' = moment_ok inp" "tensor_ok inp' = tensor_ok inp" "source_ok inp' = source_ok inp"
    "cell_ok inp' = cell_ok inp" "log_call inp' = log_call inp" "writes inp' = writes inp"
proof -
  note same = moments_scaled_same [OF assms]
  from assms have len: "length (mag_array_x inp') = length (mag_array_x inp)"
     "length (mag_array_y inp') = length (mag_array_y inp)"
     "length (mag_array_z inp') = length (mag_array_z inp)" by (simp_all add: moments_scaled_def)
  show o: "occupied inp' = occupied inp" by (simp add: fun_eq_iff occupied_def same)
  show c: "cell_of inp' = cell_of inp" by (simp add: fun_eq_iff cell_of_def same)
  show v: "volume inp' = volume inp" by (simp add: fun_eq_iff volume_def same)
  show a: "all_cells inp' = all_cells inp" by (simp add: all_cells_def same)
  show "local_cells inp' = local_cells inp" by (simp add: local_cells_def same)
  show m: "moment_ok inp' = moment_ok inp" by (simp add: fun_eq_iff moment_ok_def in_range_def len)
  show t: "tensor_ok inp' = tensor_ok inp" by (simp add: fun_eq_iff tensor_ok_def same)
  show s: "source_ok inp' = source_ok inp" by (simp add: fun_eq_iff source_ok_def same o m t)
  show "cell_ok inp' = cell_ok inp" by (simp add: fun_eq_iff cell_ok_def same o c v a m s)
  show "log_call inp' = log_call inp" by (simp add: fun_eq_iff log_call_def same)
  show "writes inp' = writes inp" by (simp add: fun_eq_iff writes_def o c)
qed

lemma moments_scaled_moment:
  assumes "moments_scaled k inp inp'"
    and "in_range (cells_num_atoms_in_cell inp) j" and "occupied inp j" and "moment_ok inp j"
  shows "moment_x inp' j = k * moment_x inp j" "moment_y inp' j = k * moment_y inp j"
        "moment_z inp' j = k * moment_z inp j"
  using assms by (simp_all add: moments_scaled_def moment_x_def moment_y_def moment_z_def)

lemma moments_scaled_pair_field:
  assumes "moments_scaled k inp inp'"
    and "in_range (cells_num_atoms_in_cell inp) j" and "occupied inp j" and "moment_ok inp j"
  shows "pair_field_x inp' l j = k * pair_field_x inp l j" "pair_field_y inp' l j = k * pair_field_y inp l j"
        "pair_field_z inp' l j = k * pair_field_z inp l j"
  by (simp_all add: pair_field_x_def pair_field_y_def pair_field_z_def moments_scaled_moment [OF assms]
        moments_scaled_same [OF assms(1)] algebra_simps)

lemma moments_scaled_pair_sum:
  assumes "moments_scaled k inp inp'" and "list_all (source_ok inp l) js"
  shows "pair_sum_x inp' l js = k * pair_sum_x inp l js \<and> pair_sum_y inp' l js = k * pair_sum_y inp l js \<and>
         pair_sum_z inp' l js = k * pair_sum_z inp l js"
  using assms(2)
proof (induction js)
  case Nil
  show ?case by (simp add: pair_sum_Nil)
next
  case (Cons j js)
  show ?case
  proof (cases "occupied inp j")
    case True
    with Cons.prems have "in_range (cells_num_atoms_in_cell inp) j" "moment_ok inp j"
      by (simp_all add: source_ok_def)
    from moments_scaled_pair_field [OF assms(1) this(1) True this(2)] Cons True show ?thesis
      by (simp add: pair_sum_Cons moments_scaled_views(1) [OF assms(1)] algebra_simps)
  next
    case False
    with Cons show ?thesis
      by (simp add: pair_sum_Cons moments_scaled_views(1) [OF assms(1)])
  qed
qed

lemma moments_scaled_cell_fields:
  assumes ms: "moments_scaled k inp inp'" and ok: "cell_ok inp l out" and occ: "occupied inp (cell_of inp l)"
  shows "total_field_x inp' l = k * total_field_x inp l" "total_field_y inp' l = k * total_field_y inp l"
        "total_field_z inp' l = k * total_field_z inp l" "demag_field_x inp' l = k * demag_field_x inp l"
        "demag_field_y inp' l = k * demag_field_y inp l" "demag_field_z inp' l = k * demag_field_z inp l"
proof -
  from ok occ have r: "in_range (cells_num_atoms_in_cell inp) (cell_of inp l)"
    and m: "moment_ok inp (cell_of inp l)" and s: "list_all (source_ok inp l) (all_cells inp)"
    by (simp_all add: cell_ok_def)
  note mm = moments_scaled_moment [OF ms r occ m]
  note ps = moments_scaled_pair_sum [OF ms s]
  note vw = moments_scaled_views [OF ms]
  show "total_field_x inp' l = k * total_field_x inp l" "total_field_y inp' l = k * total_field_y inp l"
        "total_field_z inp' l = k * total_field_z inp l" "demag_field_x inp' l = k * demag_field_x inp l"
        "demag_field_y inp' l = k * demag_field_y inp l" "demag_field_z inp' l = k * demag_field_z inp l"
    by (simp_all add: total_field_x_def total_field_y_def total_field_z_def
          demag_field_x_def demag_field_y_def demag_field_z_def Let_def vw mm ps algebra_simps)
qed

lemma moments_scaled_scale_moments: "moments_scaled k inp (scale_moments k inp)"
  by (simp add: moments_scaled_def scale_moments_def moment_ok_def in_range_nat)

lemma moments_scaled_agree:
  "agree_on_occupied inp mx my mz \<Longrightarrow>
   moments_scaled 1 inp (inp\<lparr>mag_array_x := mx, mag_array_y := my, mag_array_z := mz\<rparr>)"
  by (simp add: moments_scaled_def agree_on_occupied_def)

lemma moments_scaled_cell_result:
  assumes ms: "moments_scaled 1 inp inp'" and ok: "cell_ok inp l out"
  shows "cell_result inp' l out' = cell_result inp l out'"
proof (cases "occupied inp (cell_of inp l)")
  case True
  from moments_scaled_cell_fields [OF ms ok True] True show ?thesis
    by (simp add: cell_result_def moments_scaled_views [OF ms])
next
  case False
  then show ?thesis by (simp add: cell_result_def moments_scaled_views [OF ms])
qed

lemma moments_scaled_fold:
  assumes ms: "moments_scaled 1 inp inp'"
  shows "list_all (\<lambda>lc. cell_ok inp lc out) lcs \<Longrightarrow>
         fold (cell_result inp') lcs out = fold (cell_result inp) lcs out"
proof (induction lcs arbitrary: out)
  case Nil
  show ?case by simp
next
  case (Cons lc lcs)
  have "cell_ok inp l (cell_result inp lc out) = cell_ok inp l out" for l
    by (rule cell_ok_lens) (rule lens_cell_result)
  with Cons.prems have "list_all (\<lambda>l. cell_ok inp l (cell_result inp lc out)) lcs" by simp
  from Cons.prems have "cell_ok inp lc out" by simp
  from Cons.IH [OF \<open>list_all (\<lambda>l. cell_ok inp l (cell_result inp lc out)) lcs\<close>]
       moments_scaled_cell_result [OF ms this, of out]
  show ?case by simp
qed

lemma moments_scaled_update_field:
  assumes ms: "moments_scaled 1 inp inp'"
  shows "update_field inp' out = update_field inp out"
proof (cases "activated inp")
  case False
  then show ?thesis by (simp add: update_field_def moments_scaled_same(1) [OF ms])
next
  case act: True
  note vw = moments_scaled_views [OF ms]
  have act': "activated inp'" using act by (simp add: moments_scaled_same(1) [OF ms])
  show ?thesis
  proof (cases "list_all (\<lambda>lc. cell_ok inp lc out) (local_cells inp)")
    case True
    then have ok': "list_all (\<lambda>lc. cell_ok inp lc (log_call inp out)) (local_cells inp)"
      using cell_ok_lens [OF lens_log_call, of inp _ inp out] by simp
    have "update_field inp out = Some (fold (cell_result inp) (local_cells inp) (log_call inp out))"
      using True act by (simp add: update_field_Some)
    moreover have "update_field inp' out = Some (fold (cell_result inp') (local_cells inp) (log_call inp out))"
      using True act' by (simp add: update_field_Some vw)
    ultimately show ?thesis by (simp add: moments_scaled_fold [OF ms ok'])
  next
    case False
    have "update_field inp out = None"
      using False act update_field_Some [of inp out] by (cases "update_field inp out") auto
    moreover have "update_field inp' out = None"
      using False act' update_field_Some [of inp' out] by (cases "update_field inp' out") (auto simp: vw)
    ultimately show ?thesis by simp
  qed
qed

text \<open>
  C5. Replace the three moment arrays by arrays of the same sizes that hold the same
  moments on every occupied cell (the moments of the cells with occupancy 0 may be
  anything, zero for example). Then \<open>update_field\<close> does the same: it ends in both cases
  or in neither, and with the same output arrays, at every index. The moment of an
  unoccupied cell is never a source.
\<close>

theorem update_field_unoccupied_moments:
  assumes "agree_on_occupied inp mx my mz"
  shows "update_field (inp\<lparr>mag_array_x := mx, mag_array_y := my, mag_array_z := mz\<rparr>) out = update_field inp out"
  using moments_scaled_agree [OF assms] by (rule moments_scaled_update_field)

lemma ex_agree: "agree_on_occupied ex_inputs [muB, 0, 0] [0, muB, 0] [0, 0, 0]"
proof -
  have "[muB, 0, 0] ! nat j = mag_array_x ex_inputs ! nat j \<and>
        [0, muB, 0] ! nat j = mag_array_y ex_inputs ! nat j \<and>
        [0, 0, 0] ! nat j = mag_array_z ex_inputs ! nat j"
    if r: "in_range (cells_num_atoms_in_cell ex_inputs) j" and o: "occupied ex_inputs j" for j
  proof -
    from r have "j = 0 \<or> j = 1 \<or> j = 2" by (auto simp: in_range_def ex_inputs_def)
    moreover have "\<not> occupied ex_inputs 2" by (simp add: occupied_def ex_inputs_def)
    ultimately have "j = 0 \<or> j = 1" using o by blast
    then show ?thesis
    proof
      assume "j = 0" then show ?thesis by (simp add: ex_inputs_def)
    next
      assume "j = 1" then show ?thesis by (simp add: ex_inputs_def)
    qed
  qed
  moreover have "length [muB, 0, 0 :: real] = length (mag_array_x ex_inputs)"
    "length [0, muB, 0 :: real] = length (mag_array_y ex_inputs)"
    "length [0, 0, 0 :: real] = length (mag_array_z ex_inputs)"
    by (simp_all add: ex_inputs_def)
  ultimately show ?thesis unfolding agree_on_occupied_def by blast
qed

theorem update_field_unoccupied_moments_witness:
  "update_field (ex_inputs\<lparr>mag_array_x := [muB, 0, 0], mag_array_y := [0, muB, 0], mag_array_z := [0, 0, 0]\<rparr>) ex_fields
     = Some ex_result \<and>
   update_field ex_inputs ex_fields = Some ex_result \<and>
   mag_array_x ex_inputs = [muB, 0, 5 * muB] \<and> cells_num_atoms_in_cell ex_inputs = [1, 1, 0]"
  using update_field_unoccupied_moments [OF ex_agree, of ex_fields] ex_run
  by (simp add: ex_inputs_def)

text \<open>
  C7. Let the subsystem be activated and \<open>update_field\<close> run to its end. When every
  moment is multiplied by a constant \<open>k\<close>, the run on the multiplied moments ends as
  well, and at every entry that is written (the cell \<open>i\<close> at a local index, occupied)
  the six components of the two fields are \<open>k\<close> times those of the first run.
\<close>

theorem update_field_linear:
  assumes act: "activated inp" and run: "update_field inp out = Some out1"
    and l: "0 \<le> l" "l < cells_num_local_cells inp" and i: "i = cell_of inp l" and occ: "occupied inp i"
  shows "\<exists>out2. update_field (scale_moments k inp) out = Some out2 \<and>
           cells_field_array_x out2 ! nat i = k * cells_field_array_x out1 ! nat i \<and>
           cells_field_array_y out2 ! nat i = k * cells_field_array_y out1 ! nat i \<and>
           cells_field_array_z out2 ! nat i = k * cells_field_array_z out1 ! nat i \<and>
           cells_mu0Hd_field_array_x out2 ! nat i = k * cells_mu0Hd_field_array_x out1 ! nat i \<and>
           cells_mu0Hd_field_array_y out2 ! nat i = k * cells_mu0Hd_field_array_y out1 ! nat i \<and>
           cells_mu0Hd_field_array_z out2 ! nat i = k * cells_mu0Hd_field_array_z out1 ! nat i"
proof -
  let ?inp' = "scale_moments k inp"
  have ms: "moments_scaled k inp ?inp'" by (rule moments_scaled_scale_moments)
  note vw = moments_scaled_views [OF ms] and same = moments_scaled_same [OF ms]
  from run act have ok: "list_all (\<lambda>lc. cell_ok inp lc out) (local_cells inp)"
    and out1: "out1 = fold (cell_result inp) (local_cells inp) (log_call inp out)"
    by (simp_all add: update_field_Some)
  let ?out2 = "fold (cell_result ?inp') (local_cells inp) (log_call inp out)"
  have run2: "update_field ?inp' out = Some ?out2"
    using ok act by (simp add: update_field_Some vw same)
  have ok': "list_all (\<lambda>lc. cell_ok inp lc (log_call inp out)) (local_cells inp)"
    using ok cell_ok_lens [OF lens_log_call, of inp _ inp out] by simp
  have lin: "l \<in> set (local_cells inp)" using l by (simp add: local_cells_def)
  with ok have "cell_ok inp l out" by (simp add: list_all_iff)
  then have nn: "0 \<le> i" using i by (simp add: cell_ok_def in_range_def)
  have "writes inp (nat i) l" using occ i nn by (simp add: writes_def)
  with lin have "\<exists>x\<in>set (local_cells inp). writes inp (nat i) x" by blast
  then obtain pre x post where split: "local_cells inp = pre @ x # post"
    and wx: "writes inp (nat i) x" and post: "\<forall>z\<in>set post. \<not> writes inp (nat i) z"
    by (rule split_list_last_propE)
  from post have post': "list_all (\<lambda>lc. \<not> writes inp (nat i) lc) post" by (simp add: list_all_iff)
  have f1: "fields_at out1 (nat i) = cell_fields inp x"
    unfolding out1 split by (rule fold_cell_result_last [OF ok' [unfolded split] wx post'])
  have f2: "fields_at ?out2 (nat i) = cell_fields ?inp' x"
    unfolding split
    by (rule fold_cell_result_last) (use ok' wx post' in \<open>simp_all add: vw split\<close>)
  from ok have okx: "cell_ok inp x out" by (simp add: split)
  from wx have occx: "occupied inp (cell_of inp x)" unfolding writes_def by blast
  note sc = moments_scaled_cell_fields [OF ms okx occx]
  from f1 f2 have "fields_at ?out2 (nat i) = cell_fields ?inp' x" "fields_at out1 (nat i) = cell_fields inp x"
    by simp_all
  then have "cells_field_array_x ?out2 ! nat i = k * cells_field_array_x out1 ! nat i \<and>
           cells_field_array_y ?out2 ! nat i = k * cells_field_array_y out1 ! nat i \<and>
           cells_field_array_z ?out2 ! nat i = k * cells_field_array_z out1 ! nat i \<and>
           cells_mu0Hd_field_array_x ?out2 ! nat i = k * cells_mu0Hd_field_array_x out1 ! nat i \<and>
           cells_mu0Hd_field_array_y ?out2 ! nat i = k * cells_mu0Hd_field_array_y out1 ! nat i \<and>
           cells_mu0Hd_field_array_z ?out2 ! nat i = k * cells_mu0Hd_field_array_z out1 ! nat i"
    by (simp add: fields_at_def cell_fields_def sc)
  with run2 show ?thesis by blast
qed

theorem update_field_linear_witness:
  "activated ex_inputs \<and> update_field ex_inputs ex_fields = Some ex_result \<and>
   cell_of ex_inputs 0 = 0 \<and> occupied ex_inputs 0 \<and>
   (\<exists>out2. update_field (scale_moments 3 ex_inputs) ex_fields = Some out2 \<and>
      cells_field_array_x out2 ! 0 = 3 * ((9274009994 / 10 ^ 10) * (8 * pi / 3000 + 2)) \<and>
      cells_field_array_y out2 ! 0 = 3 * 0 \<and>
      cells_field_array_z out2 ! 0 = 3 * 0 \<and>
      cells_mu0Hd_field_array_x out2 ! 0 = 3 * ((9274009994 / 10 ^ 10) * (- (1 / 2) * (8 * pi / 3000) + 2)) \<and>
      cells_mu0Hd_field_array_y out2 ! 0 = 3 * 0 \<and>
      cells_mu0Hd_field_array_z out2 ! 0 = 3 * 0)"
proof -
  have a: "activated ex_inputs" by (simp add: ex_inputs_def)
  have c: "0 = cell_of ex_inputs 0" by (simp add: ex_inputs_def cell_of_def)
  have o: "occupied ex_inputs 0" by (simp add: ex_inputs_def occupied_def)
  have n: "(0::int) < cells_num_local_cells ex_inputs" by (simp add: ex_inputs_def)
  from update_field_linear [OF a ex_run order_refl n c o, of 3] a ex_run c o
  show ?thesis by (simp add: ex_result_def)
qed

section \<open>The search for platforms and devices\<close>

lemma find_devices_eq:
  "find_devices cfg ps (devices, n, oclog) =
     (devices @ map platform_devices ps,
      n + (\<Sum>p\<leftarrow>ps. of_nat (length (platform_devices p))),
      if OPENCL_DEBUG cfg then oclog @ concat (map found_lines ps) else oclog)"
  by (induction ps arbitrary: devices n oclog) (simp_all add: Let_def add.assoc)

lemma find_devices_visited:
  "find_devices cfg (take (unat (of_nat (length (platforms_available env)) :: 32 word)) (platforms_available env))
      ([], 0, oclog) =
     (map platform_devices (visited_platforms env), ndevices env,
      if OPENCL_DEBUG cfg then oclog @ concat (map found_lines (visited_platforms env)) else oclog)"
  by (simp add: find_devices_eq visited_platforms_def ndevices_def nplatforms_def)

lemma visited_platforms_subset: "set (visited_platforms env) \<subseteq> set (platforms_available env)"
  by (simp add: visited_platforms_def set_take_subset)

lemma ndevices_zero:
  "\<forall>p\<in>set (platforms_available env). platform_devices p = [] \<Longrightarrow> ndevices env = 0"
proof -
  assume a: "\<forall>p\<in>set (platforms_available env). platform_devices p = []"
  have "(\<Sum>p\<leftarrow>ps. of_nat (length (platform_devices p)) :: 32 word) = 0"
    if "\<forall>p\<in>set ps. platform_devices p = []" for ps
    using that by (induction ps) simp_all
  from this [of "visited_platforms env"] a visited_platforms_subset [of env]
  show ?thesis unfolding ndevices_def by blast
qed

lemma visited_first:
  assumes "nplatforms env \<noteq> 0"
  shows "platforms_available env \<noteq> []" and "visited_platforms env \<noteq> []"
    and "visited_platforms env ! 0 = platforms_available env ! 0"
proof -
  from assms show ne: "platforms_available env \<noteq> []" by (auto simp: nplatforms_def)
  from assms have pos: "0 < unat (nplatforms env)" by (simp add: unat_gt_0)
  with ne show "visited_platforms env \<noteq> []" by (simp add: visited_platforms_def)
  from pos show "visited_platforms env ! 0 = platforms_available env ! 0"
    by (simp add: visited_platforms_def)
qed

lemma read_first_platform:
  "nplatforms env \<noteq> 0 \<Longrightarrow> vec_read (platforms_available env) 0 = Some (platforms_available env ! 0)"
  using visited_first(1) [of env] by (simp add: vec_read_def in_range_def)

lemma read_first_device:
  assumes "nplatforms env \<noteq> 0"
  shows "vec_read2 (map platform_devices (visited_platforms env)) 0 0 =
           (if platform_devices (platforms_available env ! 0) = [] then None
            else Some (platform_devices (platforms_available env ! 0) ! 0))"
  using visited_first(2,3) [OF assms]
  by (simp add: vec_read2_def vec_read_def in_range_def)

lemma select_device_no_platforms:
  "nplatforms env = 0 \<Longrightarrow>
   select_device cfg env cpu_stats st =
     Exited (report no_platforms_message ((report (enabled_message cfg) st)\<lparr>use_cpu := True\<rparr>))"
  by (simp add: select_device_def Let_def nplatforms_def)

lemma select_device_no_devices:
  "nplatforms env \<noteq> 0 \<Longrightarrow> ndevices env = 0 \<Longrightarrow>
   select_device cfg env cpu_stats st =
     Exited (report no_devices_message
       ((report (enabled_message cfg) st)
          \<lparr>use_cpu := True,
            OCLLOG := (if OPENCL_DEBUG cfg then OCLLOG st @ concat (map found_lines (visited_platforms env))
                       else OCLLOG st)\<rparr>))"
  by (simp add: select_device_def Let_def find_devices_visited nplatforms_def report_def)

lemma select_device_out_of_range:
  assumes "nplatforms env \<noteq> 0" and "ndevices env \<noteq> 0"
    and "platform_devices (platforms_available env ! 0) = []"
  shows "select_device cfg env cpu_stats st = Undefined"
  using assms read_first_platform [OF assms(1)] read_first_device [OF assms(1)]
  by (simp add: select_device_def Let_def find_devices_visited nplatforms_def)

lemma select_device_selects:
  assumes "nplatforms env \<noteq> 0" and "ndevices env \<noteq> 0"
    and "platform_devices (platforms_available env ! 0) \<noteq> []"
  shows "\<exists>st'. select_device cfg env cpu_stats st = Returned True st' \<and>
           default_device st' = Some (platform_devices (platforms_available env ! 0) ! 0) \<and>
           use_cpu st'"
  using assms read_first_platform [OF assms(1)] read_first_device [OF assms(1)]
  by (simp add: select_device_def Let_def find_devices_visited nplatforms_def)

lemma ex_env_counts:
  "nplatforms (ex_env [gpu_platform]) \<noteq> 0" "ndevices (ex_env [gpu_platform]) \<noteq> 0"
  "platform_devices (platforms_available (ex_env [gpu_platform]) ! 0) \<noteq> []"
  "platform_devices (platforms_available (ex_env [gpu_platform]) ! 0) ! 0 = gpu0"
  "nplatforms (ex_env [empty_platform, gpu_platform]) \<noteq> 0"
  "ndevices (ex_env [empty_platform, gpu_platform]) \<noteq> 0"
  "platform_devices (platforms_available (ex_env [empty_platform, gpu_platform]) ! 0) = []"
  by (simp_all add: nplatforms_def ndevices_def visited_platforms_def ex_env_def
        gpu_platform_def empty_platform_def)

text \<open>
  C8. With OpenCL enabled, when there is no platform, or no platform has a device,
  \<open>initialize\<close> writes its diagnostic to \<open>std::cout\<close> and to \<open>zlog\<close> (after the first
  message) and the process is ended by \<open>err::vexit\<close>: the call does not return, in
  whatever mode. With no platform the diagnostic is the one about platforms.
\<close>

theorem initialize_exits_without_devices:
  assumes "OPENCL cfg"
    and "platforms_available env = [] \<or> (\<forall>p\<in>set (platforms_available env). platform_devices p = [])"
  shows "\<exists>st' message. initialize cfg ik env cpu_stats st = Exited st' \<and>
           (message = no_platforms_message \<or> message = no_devices_message) \<and>
           (platforms_available env = [] \<longrightarrow> message = no_platforms_message) \<and>
           cout st' = cout st @ [enabled_message cfg, message] \<and>
           zlog st' = zlog st @ [enabled_message cfg, message]"
proof (cases "nplatforms env = 0")
  case True
  from select_device_no_platforms [OF True, of cfg cpu_stats st] assms(1)
  have "initialize cfg ik env cpu_stats st =
          Exited (report no_platforms_message ((report (enabled_message cfg) st)\<lparr>use_cpu := True\<rparr>))"
    by (simp add: initialize_def)
  then show ?thesis by (simp add: report_def)
next
  case False
  then have ne: "platforms_available env \<noteq> []" by (rule visited_first(1))
  with assms(2) have "ndevices env = 0" by (simp add: ndevices_zero)
  let ?st1 = "(report (enabled_message cfg) st)
          \<lparr>use_cpu := True,
            OCLLOG := (if OPENCL_DEBUG cfg then OCLLOG st @ concat (map found_lines (visited_platforms env))
                       else OCLLOG st)\<rparr>"
  from select_device_no_devices [OF False \<open>ndevices env = 0\<close>, of cfg cpu_stats st] assms(1)
  have "initialize cfg ik env cpu_stats st = Exited (report no_devices_message ?st1)"
    by (simp add: initialize_def)
  moreover have "cout (report no_devices_message ?st1) = cout st @ [enabled_message cfg, no_devices_message]"
    "zlog (report no_devices_message ?st1) = zlog st @ [enabled_message cfg, no_devices_message]"
    by (simp_all add: report_def)
  ultimately show ?thesis using ne by blast
qed

theorem initialize_exits_without_devices_witness:
  "OPENCL ex_cfg \<and> platforms_available (ex_env []) = [] \<and>
   platform_devices empty_platform = [] \<and>
   (\<exists>st'. initialize ex_cfg ex_kernels (ex_env []) True ex_state = Exited st' \<and>
          cout st' = [enabled_message ex_cfg, no_platforms_message] \<and>
          zlog st' = [enabled_message ex_cfg, no_platforms_message])"
proof -
  have o: "OPENCL ex_cfg" by (simp add: ex_cfg_def)
  have p: "platforms_available (ex_env []) = []" by (simp add: ex_env_def)
  then have h: "platforms_available (ex_env []) = [] \<or>
      (\<forall>p\<in>set (platforms_available (ex_env [])). platform_devices p = [])" by simp
  from initialize_exits_without_devices [OF o h, of ex_kernels True ex_state] o p
  show ?thesis by (auto simp: ex_state_def empty_platform_def)
qed

text \<open>
  C9. The argument \<open>cpu_stats\<close> is not used: for any two values of it \<open>initialize\<close> ends in
  the same way, with the same result and the same state. Line 69 sets \<open>use_cpu\<close> to
  \<open>true\<close> whatever the argument is: the flag is true when the device is chosen and at
  both fatal exits.
\<close>

theorem initialize_ignores_cpu_stats:
  "initialize cfg ik env a st = initialize cfg ik env b st \<and>
   (\<forall>r st'. select_device cfg env a st = Returned r st' \<or> select_device cfg env a st = Exited st'
        \<longrightarrow> use_cpu st')"
proof
  show "initialize cfg ik env a st = initialize cfg ik env b st"
    by (simp add: initialize_def select_device_def)
next
  show "\<forall>r st'. select_device cfg env a st = Returned r st' \<or> select_device cfg env a st = Exited st'
        \<longrightarrow> use_cpu st'"
  proof (cases "nplatforms env = 0")
    case True
    show ?thesis by (auto simp: select_device_no_platforms [OF True] report_def)
  next
    case np: False
    show ?thesis
    proof (cases "ndevices env = 0")
      case True
      show ?thesis by (auto simp: select_device_no_devices [OF np True] report_def)
    next
      case nd: False
      show ?thesis
      proof (cases "platform_devices (platforms_available env ! 0) = []")
        case True
        show ?thesis by (simp add: select_device_out_of_range [OF np nd True])
      next
        case False
        from select_device_selects [OF np nd False, of cfg a st] show ?thesis by auto
      qed
    qed
  qed
qed

theorem initialize_ignores_cpu_stats_witness:
  "initialize ex_cfg ex_kernels (ex_env [gpu_platform]) True ex_state =
     initialize ex_cfg ex_kernels (ex_env [gpu_platform]) False ex_state \<and>
   \<not> use_cpu ex_state \<and>
   (\<exists>st'. select_device ex_cfg (ex_env [gpu_platform]) False ex_state = Returned True st' \<and> use_cpu st')"
proof -
  from select_device_selects [OF ex_env_counts(1,2,3), of ex_cfg False ex_state]
  obtain st' where s: "select_device ex_cfg (ex_env [gpu_platform]) False ex_state = Returned True st'"
    by blast
  from initialize_ignores_cpu_stats [of ex_cfg ex_kernels "ex_env [gpu_platform]" False ex_state True]
  have e: "initialize ex_cfg ex_kernels (ex_env [gpu_platform]) True ex_state =
     initialize ex_cfg ex_kernels (ex_env [gpu_platform]) False ex_state"
    and u: "use_cpu st'" using s by auto
  from e u s show ?thesis by (simp add: ex_state_def)
qed

text \<open>
  C10. After the two checks (\<open>nplatforms\<close> and \<open>ndevices\<close> are not zero) line 112 reads
  \<open>devices[0][0]\<close> without any further test. If the first platform has a device, this
  is the default device. If the first platform has none, the index is out of range,
  and this happens: with a first platform without devices and a second one with a
  device both checks pass and \<open>initialize\<close> leaves its vector.
\<close>

theorem default_device_index:
  assumes "nplatforms env \<noteq> 0" and "ndevices env \<noteq> 0"
  shows "(platform_devices (platforms_available env ! 0) \<noteq> [] \<longrightarrow>
            (\<exists>st'. select_device cfg env cpu_stats st = Returned True st' \<and>
                   default_device st' = Some (platform_devices (platforms_available env ! 0) ! 0))) \<and>
         (platform_devices (platforms_available env ! 0) = [] \<longrightarrow>
            select_device cfg env cpu_stats st = Undefined \<and>
            (OPENCL cfg \<longrightarrow> initialize cfg ik env cpu_stats st = Undefined)) \<and>
         platform_devices (platforms_available (ex_env [empty_platform, gpu_platform]) ! 0) = [] \<and>
         platform_devices (platforms_available (ex_env [empty_platform, gpu_platform]) ! 1) = [gpu0] \<and>
         initialize ex_cfg ik (ex_env [empty_platform, gpu_platform]) cpu_stats st = Undefined"
proof (intro conjI impI)
  assume "platform_devices (platforms_available env ! 0) \<noteq> []"
  from select_device_selects [OF assms this, of cfg cpu_stats st]
  show "\<exists>st'. select_device cfg env cpu_stats st = Returned True st' \<and>
                   default_device st' = Some (platform_devices (platforms_available env ! 0) ! 0)"
    by blast
next
  assume e: "platform_devices (platforms_available env ! 0) = []"
  show u: "select_device cfg env cpu_stats st = Undefined"
    by (rule select_device_out_of_range [OF assms e])
  assume "OPENCL cfg"
  with u show "initialize cfg ik env cpu_stats st = Undefined" by (simp add: initialize_def)
next
  show "platform_devices (platforms_available (ex_env [empty_platform, gpu_platform]) ! 0) = []"
    by (rule ex_env_counts(7))
  show "platform_devices (platforms_available (ex_env [empty_platform, gpu_platform]) ! 1) = [gpu0]"
    by (simp add: ex_env_def gpu_platform_def)
  show "initialize ex_cfg ik (ex_env [empty_platform, gpu_platform]) cpu_stats st = Undefined"
    using select_device_out_of_range [OF ex_env_counts(5,6,7), of ex_cfg cpu_stats st]
    by (simp add: initialize_def ex_cfg_def)
qed

theorem default_device_index_witness:
  "nplatforms (ex_env [gpu_platform]) \<noteq> 0 \<and> ndevices (ex_env [gpu_platform]) \<noteq> 0 \<and>
   platform_devices (platforms_available (ex_env [gpu_platform]) ! 0) \<noteq> [] \<and>
   (\<exists>st'. select_device ex_cfg (ex_env [gpu_platform]) False ex_state = Returned True st' \<and>
          default_device st' = Some gpu0) \<and>
   nplatforms (ex_env [empty_platform, gpu_platform]) \<noteq> 0 \<and>
   ndevices (ex_env [empty_platform, gpu_platform]) \<noteq> 0 \<and>
   initialize ex_cfg ex_kernels (ex_env [empty_platform, gpu_platform]) False ex_state = Undefined"
  using default_device_index [OF ex_env_counts(1,2), of ex_cfg False ex_state ex_kernels] ex_env_counts
  by simp

end
